theory Spec2Isabelle
  imports Main "HOL-Library.Word"
begin

section \<open>Python values, exceptions and effects\<close>

text \<open>
  The program is \<^verbatim>\<open>src/example/download_douyin_stream.py\<close>. A Python \<^verbatim>\<open>str\<close> is a
  sequence of code points; slicing (\<^verbatim>\<open>s[:50]\<close>) and \<^verbatim>\<open>len\<close> count code points, so a
  string is modelled as the list of its code points. \<open>ascii\<close> turns an ASCII literal
  of the source into that representation.
\<close>

type_synonym pystr = "nat list"

type_synonym byte = "8 word"

definition ascii :: "string \<Rightarrow> pystr" where
  "ascii s = map of_char s"

text \<open>
  Python values: what the resolver's dictionary holds and what a function returns.
  Numbers are integers (the status codes 2 and 4 of the source).
\<close>

datatype pyval = VNone | VInt int | VStr pystr | VList "pyval list"

text \<open>
  Exceptions. \<open>Exception m\<close> is any instance of a subclass of \<^verbatim>\<open>Exception\<close> with
  \<^verbatim>\<open>str(e) = m\<close>; \<open>KeyboardInterrupt\<close> and \<open>OtherBaseException\<close> (\<^verbatim>\<open>SystemExit\<close>,
  \<^verbatim>\<open>asyncio.CancelledError\<close>) derive from \<^verbatim>\<open>BaseException\<close> only, so
  \<^verbatim>\<open>except Exception\<close> does not catch them.
\<close>

datatype exn = Exception pystr | KeyboardInterrupt | OtherBaseException pystr

text \<open>
  Every \<^verbatim>\<open>print\<close> of the source is one constructor: the fixed wording (Chinese text
  and emoji) is the constructor, the interpolated values are its arguments, in the
  order of the f-string. The comment gives the source line.
\<close>

datatype log_msg =
    LogFetching pystr pystr                \<comment> \<open>27: quality, url\<close>
  | LogWebFailed pystr pystr               \<comment> \<open>34: quality, str(e1)\<close>
  | LogNotLive pystr pyval                 \<comment> \<open>43: quality, status\<close>
  | LogAnchor pystr "pyval option"         \<comment> \<open>46: quality, data.get('anchor_name')\<close>
  | LogTitle pystr "pyval option"          \<comment> \<open>47: quality, data.get('title')\<close>
  | LogNoStreamUrl pystr                   \<comment> \<open>56: quality\<close>
  | LogStreamUrl pystr pystr               \<comment> \<open>59: quality, stream_url[:80]\<close>
  | LogStartRecording pystr pystr          \<comment> \<open>74: quality, output_file.name\<close>
  | LogDuration pystr int int int          \<comment> \<open>76: quality, duration, duration//60, duration%60\<close>
  | LogContinuous pystr                    \<comment> \<open>78: quality\<close>
  | LogUserStopped pystr                   \<comment> \<open>84: quality\<close>
  | LogError pystr pystr                   \<comment> \<open>86: quality, str(e)\<close>
  | LogDone pystr pystr                    \<comment> \<open>130: quality, Path(output_file).name\<close>
  | LogFfmpegError pystr pystr             \<comment> \<open>133: quality, error_msg\<close>
  | LogRunStart nat pystr                  \<comment> \<open>185: len(quality_list), ', '.join(quality_list)\<close>
  | LogRunDone                             \<comment> \<open>195\<close>

text \<open>
  The effects of a session on the outside world, in the order they happen. An output
  file is only ever written by the external process started at \<open>Spawn\<close>: the program
  itself opens no file.
\<close>

datatype event =
    MkDir pystr                  \<comment> \<open>21: Path(output_dir).mkdir(parents=True, exist_ok=True)\<close>
  | NewClient "pystr option"     \<comment> \<open>24: DouyinLiveStream(cookies=cookies)\<close>
  | FetchWeb pystr               \<comment> \<open>32: fetch_web_stream_data(url)\<close>
  | FetchApp pystr               \<comment> \<open>36: fetch_app_stream_data(url)\<close>
  | FetchStreamUrl pystr         \<comment> \<open>50: fetch_stream_url(data, quality)\<close>
  | Spawn "pystr list"           \<comment> \<open>120: asyncio.create_subprocess_exec(*cmd, ...)\<close>
  | Print log_msg
  | PrintTraceback               \<comment> \<open>88: traceback.print_exc()\<close>

text \<open>
  A computation returns a value or raises, and leaves a trace of effects.
\<close>

type_synonym 'a io = "(exn + 'a) \<times> event list"

definition io_return :: "'a \<Rightarrow> 'a io" where
  "io_return v = (Inr v, [])"

definition io_bind :: "'a io \<Rightarrow> ('a \<Rightarrow> 'b io) \<Rightarrow> 'b io" where
  "io_bind m f =
     (case m of
        (Inl e, t) \<Rightarrow> (Inl e, t)
      | (Inr v, t) \<Rightarrow> (case f v of (r, t') \<Rightarrow> (r, t @ t')))"

definition io_print :: "log_msg \<Rightarrow> unit io" where
  "io_print msg = (Inr (), [Print msg])"

definition call :: "event \<Rightarrow> exn + 'a \<Rightarrow> 'a io" where
  "call ev r = (r, [ev])"

section \<open>The collaborators\<close>

text \<open>
  The resolver returns a dictionary; \<^verbatim>\<open>fetch_stream_url\<close> returns an object of which
  the program reads the attributes \<^verbatim>\<open>flv_url\<close> and \<^verbatim>\<open>m3u8_url\<close>, each a string or
  \<^verbatim>\<open>None\<close>. The external process ends with a return code and its two output streams.
\<close>

type_synonym room_data = "pystr \<rightharpoonup> pyval"

record stream_data =
  flv_url :: "pystr option"
  m3u8_url :: "pystr option"

record proc_result =
  returncode :: int
  stdout :: "byte list"
  stderr :: "byte list"

text \<open>
  What lies outside the repository is a parameter of the model: the \<^verbatim>\<open>streamget\<close>
  library, the file system, the clock, \<^verbatim>\<open>pathlib\<close>, the external process and the
  UTF-8 decoder. Each call answers with a value or with the exception it raises.
  One \<open>world\<close> holds the answers given to one session.
\<close>

record world =
  mkdir :: "pystr \<Rightarrow> exn option"
  new_client :: "pystr option \<Rightarrow> exn option"
  fetch_web_stream_data :: "pystr \<Rightarrow> exn + room_data"
  fetch_app_stream_data :: "pystr \<Rightarrow> exn + room_data"
  fetch_stream_url :: "room_data \<Rightarrow> pystr \<Rightarrow> exn + stream_data"
  timestamp :: pystr
  path_join :: "pystr \<Rightarrow> pystr \<Rightarrow> pystr"
  path_name :: "pystr \<Rightarrow> pystr"
  subprocess_exec :: "pystr list \<Rightarrow> exn + proc_result"
  decode_utf8_ignore :: "byte list \<Rightarrow> pystr"

section \<open>Python primitives\<close>

text \<open>Truthiness of an optional string and of an optional integer; Python's \<^verbatim>\<open>or\<close>.\<close>

definition truthy_str :: "pystr option \<Rightarrow> bool" where
  "truthy_str v = (case v of None \<Rightarrow> False | Some s \<Rightarrow> s \<noteq> [])"

definition truthy_int :: "int option \<Rightarrow> bool" where
  "truthy_int v = (case v of None \<Rightarrow> False | Some d \<Rightarrow> d \<noteq> 0)"

definition py_or :: "pystr option \<Rightarrow> pystr option \<Rightarrow> pystr option" where
  "py_or a b = (if truthy_str a then a else b)"

definition endswith :: "pystr \<Rightarrow> pystr \<Rightarrow> bool" where
  "endswith s suffix =
     (length suffix \<le> length s \<and> drop (length s - length suffix) s = suffix)"

fun py_in :: "pystr \<Rightarrow> pystr \<Rightarrow> bool" where
  "py_in sub [] = (sub = [])"
| "py_in sub (c # s) = (take (length sub) (c # s) = sub \<or> py_in sub s)"

definition py_replace_char :: "nat \<Rightarrow> nat \<Rightarrow> pystr \<Rightarrow> pystr" where
  "py_replace_char old new s = map (\<lambda>c. if c = old then new else c) s"

fun py_join :: "pystr \<Rightarrow> pystr list \<Rightarrow> pystr" where
  "py_join sep [] = []"
| "py_join sep [s] = s"
| "py_join sep (s # t # rest) = s @ sep @ py_join sep (t # rest)"

text \<open>\<^verbatim>\<open>str\<close> of an integer: decimal digits, with a minus sign when negative.\<close>

fun digits :: "nat \<Rightarrow> pystr" where
  "digits n = (if n < 10 then [48 + n] else digits (n div 10) @ [48 + n mod 10])"

declare digits.simps [simp del]

definition str_int :: "int \<Rightarrow> pystr" where
  "str_int i = (if i < 0 then 45 # digits (nat (- i)) else digits (nat i))"

section \<open>The capture process: \<^verbatim>\<open>download_with_ffmpeg\<close>\<close>

text \<open>
  Lines 102 to 117: the command line. The list starts with seven fixed entries, is
  extended by the duration when \<^verbatim>\<open>if duration:\<close> holds, then by the format, the
  overwrite flag and the output path.
\<close>

definition ffmpeg_cmd :: "pystr \<Rightarrow> pystr \<Rightarrow> int option \<Rightarrow> pystr list" where
  "ffmpeg_cmd stream_url output_file duration =
     (let cmd = [ascii ''ffmpeg'',
                 ascii ''-i'', stream_url,
                 ascii ''-c'', ascii ''copy'',
                 ascii ''-bsf:a'', ascii ''aac_adtstoasc''];
          cmd = (case duration of
                   None \<Rightarrow> cmd
                 | Some d \<Rightarrow> if d \<noteq> 0 then cmd @ [ascii ''-t'', str_int d] else cmd)
      in cmd @ [ascii ''-f'',
                if endswith output_file (ascii ''.mp4'') then ascii ''mp4'' else ascii ''flv'',
                ascii ''-y'',
                output_file])"

text \<open>
  Lines 120 to 133: start the process, wait for it, report. A process that cannot be
  started, or a wait that fails, raises. The function returns \<^verbatim>\<open>None\<close>.
\<close>

definition download_with_ffmpeg ::
  "world \<Rightarrow> pystr \<Rightarrow> pystr \<Rightarrow> int option \<Rightarrow> pystr \<Rightarrow> pyval io" where
  "download_with_ffmpeg w stream_url output_file duration quality =
     (let cmd = ffmpeg_cmd stream_url output_file duration in
      io_bind (call (Spawn cmd) (subprocess_exec w cmd)) (\<lambda>process.
        if returncode process = 0
        then io_bind (io_print (LogDone quality (path_name w output_file)))
               (\<lambda>_. io_return VNone)
        else
          (let error_msg = take 200 (decode_utf8_ignore w (stderr process)) in
           io_bind (io_print (LogFfmpegError quality error_msg))
             (\<lambda>_. io_return VNone))))"

section \<open>One capture session: \<^verbatim>\<open>download_live_stream\<close>\<close>

text \<open>
  Lines 30 to 38. The web method is called first. \<^verbatim>\<open>except Exception as e1\<close> catches
  only instances of \<^verbatim>\<open>Exception\<close>; inside the handler the app method is called, and
  \<^verbatim>\<open>except Exception as e2\<close> raises the combined exception. Its message is
  \<^verbatim>\<open>f"Web...: Web={str(e1)[:50]}, App={str(e2)[:50]}"\<close>, the fixed text before
  \<^verbatim>\<open>Web=\<close> holding six code points outside ASCII.
\<close>

definition both_failed_message :: "pystr \<Rightarrow> pystr \<Rightarrow> pystr" where
  "both_failed_message m1 m2 =
     ascii ''Web'' @ [0x548C] @ ascii ''App'' @ [0x65B9, 0x6CD5, 0x90FD, 0x5931, 0x8D25]
       @ ascii '': Web='' @ take 50 m1 @ ascii '', App='' @ take 50 m2"

definition fetch_room_data :: "world \<Rightarrow> pystr \<Rightarrow> pystr \<Rightarrow> room_data io" where
  "fetch_room_data w url quality =
     (case fetch_web_stream_data w url of
        Inr data \<Rightarrow> (Inr data, [FetchWeb url])
      | Inl (Exception m1) \<Rightarrow>
          (case fetch_app_stream_data w url of
             Inr data \<Rightarrow>
               (Inr data, [FetchWeb url, Print (LogWebFailed quality m1), FetchApp url])
           | Inl (Exception m2) \<Rightarrow>
               (Inl (Exception (both_failed_message m1 m2)),
                [FetchWeb url, Print (LogWebFailed quality m1), FetchApp url])
           | Inl e2 \<Rightarrow>
               (Inl e2, [FetchWeb url, Print (LogWebFailed quality m1), FetchApp url]))
      | Inl e1 \<Rightarrow> (Inl e1, [FetchWeb url]))"

text \<open>
  Line 63: \<^verbatim>\<open>data.get('anchor_name', 'unknown').replace('/', '_')\<close>. A value that is
  present but not a string has no \<^verbatim>\<open>replace\<close>: Python raises \<^verbatim>\<open>AttributeError\<close>, an
  \<^verbatim>\<open>Exception\<close>.
\<close>

definition attribute_error :: "string \<Rightarrow> exn" where
  "attribute_error ty =
     Exception ([39] @ ascii ty @ [39] @ ascii '' object has no attribute ''
                @ [39] @ ascii ''replace'' @ [39])"

definition anchor_name_for_file :: "room_data \<Rightarrow> pystr io" where
  "anchor_name_for_file data =
     (case data (ascii ''anchor_name'') of
        None \<Rightarrow> io_return (py_replace_char 47 95 (ascii ''unknown''))
      | Some (VStr s) \<Rightarrow> io_return (py_replace_char 47 95 s)
      | Some VNone \<Rightarrow> (Inl (attribute_error ''NoneType''), [])
      | Some (VInt i) \<Rightarrow> (Inl (attribute_error ''int''), [])
      | Some (VList vs) \<Rightarrow> (Inl (attribute_error ''list''), []))"

text \<open>Line 41: \<^verbatim>\<open>data.get('status', 4)\<close>.\<close>

definition room_status :: "room_data \<Rightarrow> pyval" where
  "room_status data = (case data (ascii ''status'') of None \<Rightarrow> VInt 4 | Some v \<Rightarrow> v)"

text \<open>Line 53: the FLV address is preferred.\<close>

definition select_stream_url :: "stream_data \<Rightarrow> pystr option" where
  "select_stream_url sd = py_or (flv_url sd) (m3u8_url sd)"

text \<open>Lines 66 to 69: the extension follows the shape of the address.\<close>

definition file_ext :: "pystr \<Rightarrow> pystr" where
  "file_ext stream_url =
     (if endswith stream_url (ascii ''.m3u8'') \<or> py_in (ascii ''m3u8'') stream_url
      then ascii ''mp4'' else ascii ''flv'')"

text \<open>Line 72: the output path, file name \<^verbatim>\<open>{anchor_name}_{quality}_{timestamp}.{ext}\<close>.\<close>

definition output_path :: "world \<Rightarrow> pystr \<Rightarrow> pystr \<Rightarrow> pystr \<Rightarrow> pystr \<Rightarrow> pystr" where
  "output_path w output_dir anchor_name quality ext =
     path_join w output_dir
       (anchor_name @ ascii ''_'' @ quality @ ascii ''_'' @ timestamp w @ ascii ''.'' @ ext)"

text \<open>Lines 75 to 78: what is announced about the duration.\<close>

definition duration_msg :: "pystr \<Rightarrow> int option \<Rightarrow> log_msg" where
  "duration_msg quality duration =
     (case duration of
        None \<Rightarrow> LogContinuous quality
      | Some d \<Rightarrow> if d \<noteq> 0 then LogDuration quality d (d div 60) (d mod 60)
                 else LogContinuous quality)"

text \<open>
  Lines 59 to 81, reached with a non-empty address: name the file, announce the
  recording, run the capture.
\<close>

definition record_stream ::
  "world \<Rightarrow> room_data \<Rightarrow> pystr \<Rightarrow> pystr \<Rightarrow> pystr \<Rightarrow> int option \<Rightarrow> pyval io" where
  "record_stream w data stream_url output_dir quality duration =
     io_bind (io_print (LogStreamUrl quality (take 80 stream_url))) (\<lambda>_.
     io_bind (anchor_name_for_file data) (\<lambda>anchor_name.
       let ext = file_ext stream_url;
           output_file = output_path w output_dir anchor_name quality ext
       in
       io_bind (io_print (LogStartRecording quality (path_name w output_file))) (\<lambda>_.
       io_bind (io_print (duration_msg quality duration)) (\<lambda>_.
       download_with_ffmpeg w stream_url output_file duration quality))))"

text \<open>
  Lines 27 to 81, the body of the outer \<^verbatim>\<open>try\<close>. Both \<^verbatim>\<open>return\<close> statements (the
  room is not live; no address) leave the function with \<^verbatim>\<open>None\<close>.
\<close>

definition try_block ::
  "world \<Rightarrow> pystr \<Rightarrow> pystr \<Rightarrow> pystr \<Rightarrow> int option \<Rightarrow> pyval io" where
  "try_block w url output_dir quality duration =
     io_bind (io_print (LogFetching quality url)) (\<lambda>_.
     io_bind (fetch_room_data w url quality) (\<lambda>data.
       let status = room_status data in
       if status \<noteq> VInt 2
       then io_bind (io_print (LogNotLive quality status)) (\<lambda>_. io_return VNone)
       else
         io_bind (io_print (LogAnchor quality (data (ascii ''anchor_name'')))) (\<lambda>_.
         io_bind (io_print (LogTitle quality (data (ascii ''title'')))) (\<lambda>_.
         io_bind (call (FetchStreamUrl quality) (fetch_stream_url w data quality)) (\<lambda>sd.
           case select_stream_url sd of
             None \<Rightarrow> io_bind (io_print (LogNoStreamUrl quality)) (\<lambda>_. io_return VNone)
           | Some stream_url \<Rightarrow>
               if stream_url = []
               then io_bind (io_print (LogNoStreamUrl quality)) (\<lambda>_. io_return VNone)
               else record_stream w data stream_url output_dir quality duration)))))"

text \<open>
  Lines 21 to 88. The directory and the client are made before the \<^verbatim>\<open>try\<close>, so an
  exception there leaves the function. Inside, \<^verbatim>\<open>except KeyboardInterrupt\<close> and
  \<^verbatim>\<open>except Exception\<close> print and fall through to the end of the function; any other
  \<^verbatim>\<open>BaseException\<close> propagates.
\<close>

definition download_live_stream ::
  "world \<Rightarrow> pystr \<Rightarrow> pystr \<Rightarrow> pystr \<Rightarrow> int option \<Rightarrow> pystr option \<Rightarrow> pyval io" where
  "download_live_stream w url output_dir quality duration cookies =
     (case mkdir w output_dir of
        Some e \<Rightarrow> (Inl e, [MkDir output_dir])
      | None \<Rightarrow>
          (case new_client w cookies of
             Some e \<Rightarrow> (Inl e, [MkDir output_dir, NewClient cookies])
           | None \<Rightarrow>
               (case try_block w url output_dir quality duration of
                  (Inr v, t) \<Rightarrow> (Inr VNone, [MkDir output_dir, NewClient cookies] @ t)
                | (Inl KeyboardInterrupt, t) \<Rightarrow>
                    (Inr VNone,
                     [MkDir output_dir, NewClient cookies] @ t
                       @ [Print (LogUserStopped quality)])
                | (Inl (Exception m), t) \<Rightarrow>
                    (Inr VNone,
                     [MkDir output_dir, NewClient cookies] @ t
                       @ [Print (LogError quality m), PrintTraceback])
                | (Inl (OtherBaseException m), t) \<Rightarrow>
                    (Inl (OtherBaseException m),
                     [MkDir output_dir, NewClient cookies] @ t))))"

section \<open>The run: \<^verbatim>\<open>main\<close>\<close>

text \<open>
  \<^verbatim>\<open>asyncio.gather(*tasks)\<close> without \<^verbatim>\<open>return_exceptions\<close>: when every task returns,
  the result is the list of their results in the order of the arguments; when a task
  raises, the exception is raised to the caller. The tasks share no state, so each
  is run against its own \<open>world\<close> and keeps its own trace; how the scheduler
  interleaves them is not modelled. When several tasks raise, the model reports the
  exception of the first one in the list; what the other tasks still do once an
  exception has left \<^verbatim>\<open>main\<close> is not modelled either, so the traces of a run are
  meaningful only when no task raises.
\<close>

fun gather :: "'a io list \<Rightarrow> (exn + 'a list) \<times> event list list" where
  "gather [] = (Inr [], [])"
| "gather ((r, t) # tasks) =
     (case gather tasks of
        (rs, ts) \<Rightarrow>
          ((case r of
              Inl e \<Rightarrow> Inl e
            | Inr v \<Rightarrow> (case rs of Inl e' \<Rightarrow> Inl e' | Inr vs \<Rightarrow> Inr (v # vs))),
           t # ts))"

text \<open>
  Lines 185 to 195 with the configuration of lines 170 to 184 as parameters: the
  result of the run, what \<^verbatim>\<open>main\<close> itself prints, and the trace of every session in
  the order of \<open>quality_list\<close>. The value of \<^verbatim>\<open>gather\<close> is dropped and \<^verbatim>\<open>main\<close> has no
  \<^verbatim>\<open>return\<close>: it returns \<^verbatim>\<open>None\<close>. Task \<open>i\<close> talks to \<open>worlds i\<close>.
\<close>

definition run_sessions ::
  "(nat \<Rightarrow> world) \<Rightarrow> pystr \<Rightarrow> pystr \<Rightarrow> pystr list \<Rightarrow> int option \<Rightarrow> pystr option
     \<Rightarrow> (exn + pyval) \<times> event list \<times> event list list" where
  "run_sessions worlds url output_dir quality_list duration cookies =
     (let start = Print (LogRunStart (length quality_list) (py_join (ascii '', '') quality_list));
          tasks = map (\<lambda>(i, q). download_live_stream (worlds i) url output_dir q duration cookies)
                    (enumerate 0 quality_list)
      in case gather tasks of
           (Inl e, ts) \<Rightarrow> (Inl e, [start], ts)
         | (Inr results, ts) \<Rightarrow> (Inr VNone, [start, Print LogRunDone], ts))"

definition main_url :: pystr where
  "main_url = ascii ''https://live.douyin.com/901113773259''"

definition main_quality_list :: "pystr list" where
  "main_quality_list = [ascii ''OD'', ascii ''UHD'', ascii ''HD'', ascii ''SD'', ascii ''LD'']"

definition main :: "(nat \<Rightarrow> world) \<Rightarrow> (exn + pyval) \<times> event list \<times> event list list" where
  "main worlds =
     run_sessions worlds main_url (ascii ''downloads'') main_quality_list (Some 600) None"

section \<open>Observations on traces and command lines\<close>

fun is_fetch_web :: "event \<Rightarrow> bool" where
  "is_fetch_web (FetchWeb u) = True"
| "is_fetch_web ev = False"

fun is_fetch_stream_url :: "event \<Rightarrow> bool" where
  "is_fetch_stream_url (FetchStreamUrl q) = True"
| "is_fetch_stream_url ev = False"

fun is_spawn :: "event \<Rightarrow> bool" where
  "is_spawn (Spawn cmd) = True"
| "is_spawn ev = False"

text \<open>
  An answer that is a \<^verbatim>\<open>BaseException\<close> other than \<^verbatim>\<open>KeyboardInterrupt\<close>, such as
  the cancellation of the task: no handler of the session catches it.
\<close>

definition uncaught :: "exn + 'a \<Rightarrow> bool" where
  "uncaught r = (case r of Inl (OtherBaseException m) \<Rightarrow> True | _ \<Rightarrow> False)"

text \<open>
  The entries of a command line between its seven leading entries (program, input,
  copy mode, audio filter) and its four trailing ones (format, overwrite, output).
\<close>

definition duration_args :: "pystr list \<Rightarrow> pystr list" where
  "duration_args cmd = take (length cmd - 11) (drop 7 cmd)"

text \<open>The last \<open>n\<close> characters of a text, Python's \<^verbatim>\<open>s[-n:]\<close> for positive \<open>n\<close>.\<close>

definition last_chars :: "nat \<Rightarrow> pystr \<Rightarrow> pystr" where
  "last_chars n s = drop (length s - n) s"

text \<open>
  A run report as the specification describes it: the run returns a sequence of \<open>n\<close>
  outcome values.
\<close>

definition run_report :: "nat \<Rightarrow> exn + pyval \<Rightarrow> bool" where
  "run_report n r = (case r of Inr (VList outcomes) \<Rightarrow> length outcomes = n | _ \<Rightarrow> False)"

section \<open>Example inputs\<close>

text \<open>
  A world in which the directory and the client can be made, every resolver call
  gives the same answer whatever its arguments, paths are joined with a slash, and
  the diagnostic stream is plain ASCII.
\<close>

definition unix_path_name :: "pystr \<Rightarrow> pystr" where
  "unix_path_name p = rev (takeWhile (\<lambda>c. c \<noteq> 47) (rev p))"

definition example_world ::
  "(exn + room_data) \<Rightarrow> (exn + room_data) \<Rightarrow> (exn + stream_data) \<Rightarrow> (exn + proc_result)
     \<Rightarrow> world" where
  "example_world web app su proc =
     \<lparr> mkdir = (\<lambda>d. None),
       new_client = (\<lambda>c. None),
       fetch_web_stream_data = (\<lambda>u. web),
       fetch_app_stream_data = (\<lambda>u. app),
       fetch_stream_url = (\<lambda>d q. su),
       timestamp = ascii ''20240101_120000'',
       path_join = (\<lambda>d f. d @ ascii ''/'' @ f),
       path_name = unix_path_name,
       subprocess_exec = (\<lambda>cmd. proc),
       decode_utf8_ignore = map unat \<rparr>"

definition live_room :: room_data where
  "live_room = [ascii ''status'' \<mapsto> VInt 2, ascii ''anchor_name'' \<mapsto> VStr (ascii ''abc'')]"

definition offline_room :: room_data where
  "offline_room = [ascii ''status'' \<mapsto> VInt 4, ascii ''anchor_name'' \<mapsto> VStr (ascii ''abc'')]"

definition room_without_status :: room_data where
  "room_without_status = [ascii ''anchor_name'' \<mapsto> VStr (ascii ''abc'')]"

definition flv_stream :: stream_data where
  "flv_stream = \<lparr> flv_url = Some (ascii ''http://h/s.flv''), m3u8_url = Some (ascii ''http://h/s.m3u8'') \<rparr>"

definition hls_stream :: stream_data where
  "hls_stream = \<lparr> flv_url = None, m3u8_url = Some (ascii ''http://h/s.m3u8'') \<rparr>"

definition no_stream :: stream_data where
  "no_stream = \<lparr> flv_url = None, m3u8_url = Some [] \<rparr>"

definition exited :: "int \<Rightarrow> byte list \<Rightarrow> proc_result" where
  "exited code err = \<lparr> returncode = code, stdout = [], stderr = err \<rparr>"

definition timeout_error :: exn where
  "timeout_error = Exception (ascii ''timed out'')"

text \<open>An offline room, a room that cannot be resolved, a live room whose capture fails.\<close>

definition offline_world :: world where
  "offline_world =
     example_world (Inr offline_room) (Inr offline_room) (Inr flv_stream) (Inr (exited 0 []))"

definition unresolved_world :: world where
  "unresolved_world =
     example_world (Inl timeout_error) (Inl (Exception (replicate 60 120)))
       (Inr flv_stream) (Inr (exited 0 []))"

definition failing_world :: world where
  "failing_world =
     example_world (Inr live_room) (Inr live_room) (Inr flv_stream)
       (Inr (exited 1 (98 # replicate 200 97)))"

definition no_stream_world :: world where
  "no_stream_world =
     example_world (Inl timeout_error) (Inr live_room) (Inr no_stream) (Inr (exited 0 []))"

text \<open>Three sessions of one run: each hits one of the failures above.\<close>

definition example_worlds :: "nat \<Rightarrow> world" where
  "example_worlds i =
     (if i = 0 then unresolved_world else if i = 1 then no_stream_world else failing_world)"

definition example_qualities :: "pystr list" where
  "example_qualities = [ascii ''OD'', ascii ''HD'', ascii ''SD'']"

text \<open>
  A world in which the output directory cannot be made (a file of that name exists),
  a world in which the task is cancelled while it waits for the web method, and
  a run of \<^verbatim>\<open>main\<close> whose first session lives in the former while the other four see
  an offline room.
\<close>

definition denied_world :: world where
  "denied_world = offline_world \<lparr> mkdir := (\<lambda>d. Some (Exception (ascii ''File exists''))) \<rparr>"

definition cancelled_world :: world where
  "cancelled_world =
     example_world (Inl (OtherBaseException (ascii ''cancelled''))) (Inr live_room)
       (Inr flv_stream) (Inr (exited 0 []))"

definition denied_worlds :: "nat \<Rightarrow> world" where
  "denied_worlds i = (if i = 0 then denied_world else offline_world)"

section \<open>Auxiliary facts\<close>

lemmas io_defs = io_bind_def io_return_def io_print_def call_def

lemma replicate_neq_cons: "x \<noteq> y \<Longrightarrow> replicate n y \<noteq> x # xs"
  by (cases n) auto

lemma ffmpeg_cmd_zero: "ffmpeg_cmd stream_url output_file (Some 0) = ffmpeg_cmd stream_url output_file None"
  by (simp add: ffmpeg_cmd_def)

lemma download_with_ffmpeg_zero:
  "download_with_ffmpeg w stream_url output_file (Some 0) quality =
   download_with_ffmpeg w stream_url output_file None quality"
  by (simp add: download_with_ffmpeg_def ffmpeg_cmd_zero)

lemma record_stream_zero:
  "record_stream w data stream_url output_dir quality (Some 0) =
   record_stream w data stream_url output_dir quality None"
  by (simp add: record_stream_def download_with_ffmpeg_zero duration_msg_def Let_def)

lemma try_block_zero:
  "try_block w url output_dir quality (Some 0) = try_block w url output_dir quality None"
  by (simp add: try_block_def record_stream_zero Let_def cong: if_cong option.case_cong)

lemma download_live_stream_zero:
  "download_live_stream w url output_dir quality (Some 0) cookies =
   download_live_stream w url output_dir quality None cookies"
  by (simp add: download_live_stream_def try_block_zero cong: option.case_cong)

lemma download_with_ffmpeg_exit:
  assumes "subprocess_exec w (ffmpeg_cmd stream_url output_file duration) = Inr process"
  shows "download_with_ffmpeg w stream_url output_file duration quality =
           (Inr VNone,
            [Spawn (ffmpeg_cmd stream_url output_file duration),
             Print (if returncode process = 0
                    then LogDone quality (path_name w output_file)
                    else LogFfmpegError quality
                           (take 200 (decode_utf8_ignore w (stderr process))))])"
  using assms by (simp add: download_with_ffmpeg_def io_defs)

lemma download_with_ffmpeg_raise:
  assumes "subprocess_exec w (ffmpeg_cmd stream_url output_file duration) = Inl e"
  shows "download_with_ffmpeg w stream_url output_file duration quality =
           (Inl e, [Spawn (ffmpeg_cmd stream_url output_file duration)])"
  using assms by (simp add: download_with_ffmpeg_def io_defs)

subsection \<open>Resolution\<close>

lemma fetch_room_data_web:
  "fetch_web_stream_data w url = Inr d \<Longrightarrow> fetch_room_data w url q = (Inr d, [FetchWeb url])"
  by (simp add: fetch_room_data_def)

lemma fetch_room_data_app:
  "fetch_web_stream_data w url = Inl (Exception m1) \<Longrightarrow> fetch_app_stream_data w url = Inr d \<Longrightarrow>
   fetch_room_data w url q = (Inr d, [FetchWeb url, Print (LogWebFailed q m1), FetchApp url])"
  by (simp add: fetch_room_data_def)

lemma fetch_room_data_both_failed:
  "fetch_web_stream_data w url = Inl (Exception m1) \<Longrightarrow>
   fetch_app_stream_data w url = Inl (Exception m2) \<Longrightarrow>
   fetch_room_data w url q =
     (Inl (Exception (both_failed_message m1 m2)),
      [FetchWeb url, Print (LogWebFailed q m1), FetchApp url])"
  by (simp add: fetch_room_data_def)

lemma fetch_room_data_trace:
  "snd (fetch_room_data w url q) = [FetchWeb url]
   \<or> (\<exists>m1. snd (fetch_room_data w url q) = [FetchWeb url, Print (LogWebFailed q m1), FetchApp url])"
  by (auto simp: fetch_room_data_def split: sum.splits exn.splits)

lemma fetch_room_data_hd: "hd (snd (fetch_room_data w url q)) = FetchWeb url"
  using fetch_room_data_trace [of w url q] by auto

lemma fetch_room_data_app_iff:
  "FetchApp url \<in> set (snd (fetch_room_data w url q))
     \<longleftrightarrow> (\<exists>m1. fetch_web_stream_data w url = Inl (Exception m1))"
  by (auto simp: fetch_room_data_def split: sum.splits exn.splits)

lemma fetch_room_data_fetch_web:
  "filter is_fetch_web (snd (fetch_room_data w url q)) = [FetchWeb url]"
  using fetch_room_data_trace [of w url q] by auto

lemma fetch_room_data_no_capture:
  "filter is_fetch_stream_url (snd (fetch_room_data w url q)) = []
   \<and> filter is_spawn (snd (fetch_room_data w url q)) = []"
  using fetch_room_data_trace [of w url q] by auto

lemma fetch_room_data_uncaught:
  "fst (fetch_room_data w url q) = Inl (OtherBaseException m) \<Longrightarrow>
   uncaught (fetch_web_stream_data w url) \<or> uncaught (fetch_app_stream_data w url)"
  by (auto simp: fetch_room_data_def uncaught_def split: sum.splits exn.splits)

lemma both_failed_message_length:
  "length (both_failed_message m1 m2) = 24 + min (length m1) 50 + min (length m2) 50"
  by (simp add: both_failed_message_def ascii_def)

subsection \<open>The body of the session\<close>

lemma try_block_not_live:
  assumes "fetch_room_data w url q = (Inr data, t)" and "room_status data \<noteq> VInt 2"
  shows "try_block w url dir q dur =
           (Inr VNone, Print (LogFetching q url) # t @ [Print (LogNotLive q (room_status data))])"
  using assms by (simp add: try_block_def io_defs Let_def)

lemma try_block_resolution_failed:
  assumes "fetch_room_data w url q = (Inl e, t)"
  shows "try_block w url dir q dur = (Inl e, Print (LogFetching q url) # t)"
  using assms by (simp add: try_block_def io_defs)

lemma try_block_no_url:
  assumes "fetch_room_data w url q = (Inr data, t)" and "room_status data = VInt 2"
    and "fetch_stream_url w data q = Inr sd" and "\<not> truthy_str (select_stream_url sd)"
  shows "try_block w url dir q dur =
           (Inr VNone, Print (LogFetching q url) # t @
              [Print (LogAnchor q (data (ascii ''anchor_name''))),
               Print (LogTitle q (data (ascii ''title''))),
               FetchStreamUrl q, Print (LogNoStreamUrl q)])"
  using assms by (simp add: try_block_def io_defs truthy_str_def Let_def split: option.splits)

lemma try_block_live:
  assumes "fetch_room_data w url q = (Inr data, t)" and "room_status data = VInt 2"
    and "fetch_stream_url w data q = Inr sd" and "select_stream_url sd = Some su" and "su \<noteq> []"
  shows "try_block w url dir q dur =
           (fst (record_stream w data su dir q dur),
            Print (LogFetching q url) # t @
              [Print (LogAnchor q (data (ascii ''anchor_name''))),
               Print (LogTitle q (data (ascii ''title''))),
               FetchStreamUrl q] @ snd (record_stream w data su dir q dur))"
  using assms by (simp add: try_block_def io_defs Let_def split: prod.splits)

lemma record_stream_named:
  assumes "anchor_name_for_file data = (Inr name, [])"
  shows "record_stream w data su dir q dur =
           (fst (download_with_ffmpeg w su (output_path w dir name q (file_ext su)) dur q),
            [Print (LogStreamUrl q (take 80 su)),
             Print (LogStartRecording q (path_name w (output_path w dir name q (file_ext su)))),
             Print (duration_msg q dur)]
            @ snd (download_with_ffmpeg w su (output_path w dir name q (file_ext su)) dur q))"
  using assms by (simp add: record_stream_def io_defs Let_def split: prod.splits)

subsection \<open>Events of the session\<close>

lemma download_with_ffmpeg_trace:
  "\<exists>rest. snd (download_with_ffmpeg w su out dur q) = Spawn (ffmpeg_cmd su out dur) # rest
          \<and> (\<forall>ev \<in> set rest. \<exists>msg. ev = Print msg)"
  by (cases "subprocess_exec w (ffmpeg_cmd su out dur)")
     (simp_all add: download_with_ffmpeg_raise download_with_ffmpeg_exit)

lemma download_with_ffmpeg_no_fetch:
  "filter is_fetch_web (snd (download_with_ffmpeg w su out dur q)) = []"
  by (cases "subprocess_exec w (ffmpeg_cmd su out dur)")
     (simp_all add: download_with_ffmpeg_raise download_with_ffmpeg_exit)

lemma download_with_ffmpeg_uncaught:
  "fst (download_with_ffmpeg w su out dur q) = Inl (OtherBaseException m) \<Longrightarrow>
   uncaught (subprocess_exec w (ffmpeg_cmd su out dur))"
  by (cases "subprocess_exec w (ffmpeg_cmd su out dur)")
     (simp_all add: download_with_ffmpeg_raise download_with_ffmpeg_exit uncaught_def)

lemma download_with_ffmpeg_recorded:
  assumes "Spawn cmd \<in> set (snd (download_with_ffmpeg w su out dur q))"
    and "subprocess_exec w cmd = Inr p" and "returncode p \<noteq> 0"
  shows "Print (LogFfmpegError q (take 200 (decode_utf8_ignore w (stderr p))))
           \<in> set (snd (download_with_ffmpeg w su out dur q))"
proof -
  from download_with_ffmpeg_trace [of w su out dur q] assms(1)
  have "cmd = ffmpeg_cmd su out dur" by auto
  with assms(2,3) show ?thesis by (simp add: download_with_ffmpeg_exit)
qed

lemma anchor_name_for_file_cases:
  "(\<exists>name. anchor_name_for_file data = (Inr name, []))
   \<or> (\<exists>m. anchor_name_for_file data = (Inl (Exception m), []))"
  by (auto simp: anchor_name_for_file_def io_return_def attribute_error_def
      split: option.splits pyval.splits)

lemma record_stream_failed_name:
  assumes "anchor_name_for_file data = (Inl e, [])"
  shows "record_stream w data su dir q dur = (Inl e, [Print (LogStreamUrl q (take 80 su))])"
  using assms by (simp add: record_stream_def io_defs)

lemma record_stream_no_fetch:
  "filter is_fetch_web (snd (record_stream w data su dir q dur)) = []"
  using anchor_name_for_file_cases [of data]
  by (auto simp: record_stream_named record_stream_failed_name download_with_ffmpeg_no_fetch)

lemma record_stream_uncaught:
  "fst (record_stream w data su dir q dur) = Inl (OtherBaseException m) \<Longrightarrow>
   \<exists>cmd. uncaught (subprocess_exec w cmd)"
  using anchor_name_for_file_cases [of data]
  by (auto simp: record_stream_named record_stream_failed_name dest!: download_with_ffmpeg_uncaught)

lemma record_stream_recorded:
  assumes "Spawn cmd \<in> set (snd (record_stream w data su dir q dur))"
    and "subprocess_exec w cmd = Inr p" and "returncode p \<noteq> 0"
  shows "Print (LogFfmpegError q (take 200 (decode_utf8_ignore w (stderr p))))
           \<in> set (snd (record_stream w data su dir q dur))"
  using anchor_name_for_file_cases [of data] assms
  by (auto simp: record_stream_named record_stream_failed_name dest: download_with_ffmpeg_recorded)

text \<open>The shape of the body's result, by the path taken.\<close>

lemma try_block_cases:
  "(\<exists>e t. fetch_room_data w url q = (Inl e, t)
          \<and> try_block w url dir q dur = (Inl e, Print (LogFetching q url) # t))
   \<or> (\<exists>data t. fetch_room_data w url q = (Inr data, t) \<and> room_status data \<noteq> VInt 2
          \<and> try_block w url dir q dur =
              (Inr VNone, Print (LogFetching q url) # t @ [Print (LogNotLive q (room_status data))]))
   \<or> (\<exists>data t e. fetch_room_data w url q = (Inr data, t) \<and> room_status data = VInt 2
          \<and> fetch_stream_url w data q = Inl e
          \<and> try_block w url dir q dur =
              (Inl e, Print (LogFetching q url) # t @
                 [Print (LogAnchor q (data (ascii ''anchor_name''))),
                  Print (LogTitle q (data (ascii ''title''))), FetchStreamUrl q]))
   \<or> (\<exists>data t sd. fetch_room_data w url q = (Inr data, t) \<and> room_status data = VInt 2
          \<and> fetch_stream_url w data q = Inr sd \<and> \<not> truthy_str (select_stream_url sd)
          \<and> try_block w url dir q dur =
              (Inr VNone, Print (LogFetching q url) # t @
                 [Print (LogAnchor q (data (ascii ''anchor_name''))),
                  Print (LogTitle q (data (ascii ''title''))),
                  FetchStreamUrl q, Print (LogNoStreamUrl q)]))
   \<or> (\<exists>data t sd su. fetch_room_data w url q = (Inr data, t) \<and> room_status data = VInt 2
          \<and> fetch_stream_url w data q = Inr sd \<and> select_stream_url sd = Some su \<and> su \<noteq> []
          \<and> try_block w url dir q dur =
              (fst (record_stream w data su dir q dur),
               Print (LogFetching q url) # t @
                 [Print (LogAnchor q (data (ascii ''anchor_name''))),
                  Print (LogTitle q (data (ascii ''title''))),
                  FetchStreamUrl q] @ snd (record_stream w data su dir q dur)))"
proof (cases "fetch_room_data w url q")
  case (Pair r t)
  show ?thesis
  proof (cases r)
    case (Inl e)
    with Pair show ?thesis by (simp add: try_block_resolution_failed)
  next
    case (Inr data)
    note resolved = Pair [unfolded Inr]
    show ?thesis
    proof (cases "room_status data = VInt 2")
      case False
      with resolved show ?thesis by (simp add: try_block_not_live)
    next
      case True
      show ?thesis
      proof (cases "fetch_stream_url w data q")
        case (Inl e)
        with resolved True show ?thesis by (simp add: try_block_def io_defs Let_def)
      next
        case (Inr sd)
        show ?thesis
        proof (cases "truthy_str (select_stream_url sd)")
          case False
          with resolved True Inr show ?thesis by (simp add: try_block_no_url)
        next
          case truthy: True
          then obtain su where "select_stream_url sd = Some su" and "su \<noteq> []"
            by (auto simp: truthy_str_def split: option.splits)
          with resolved True Inr show ?thesis by (simp add: try_block_live)
        qed
      qed
    qed
  qed
qed

lemma try_block_fetch_web:
  "filter is_fetch_web (snd (try_block w url dir q dur)) = [FetchWeb url]"
  using try_block_cases [of w url q dir dur] fetch_room_data_fetch_web [of w url q]
  by (auto simp: record_stream_no_fetch)

lemma try_block_uncaught:
  assumes "fst (try_block w url dir q dur) = Inl (OtherBaseException m)"
  shows "uncaught (fetch_web_stream_data w url) \<or> uncaught (fetch_app_stream_data w url)
       \<or> (\<exists>data. uncaught (fetch_stream_url w data q))
       \<or> (\<exists>cmd. uncaught (subprocess_exec w cmd))"
proof -
  have resolve: "uncaught (fetch_web_stream_data w url) \<or> uncaught (fetch_app_stream_data w url)"
    if "fetch_room_data w url q = (Inl (OtherBaseException m), t)" for t
    using that fetch_room_data_uncaught [of w url q m] by simp
  have select: "\<exists>data. uncaught (fetch_stream_url w data q)"
    if "fetch_stream_url w data q = Inl (OtherBaseException m)" for data
    using that by (auto simp: uncaught_def intro!: exI [of _ data])
  from try_block_cases [of w url q dir dur] assms show ?thesis
    by (elim disjE exE conjE) (simp_all, (blast dest: resolve select record_stream_uncaught)+)
qed

lemma try_block_recorded:
  assumes "Spawn cmd \<in> set (snd (try_block w url dir q dur))"
    and "subprocess_exec w cmd = Inr p" and "returncode p \<noteq> 0"
  shows "Print (LogFfmpegError q (take 200 (decode_utf8_ignore w (stderr p))))
           \<in> set (snd (try_block w url dir q dur))"
proof -
  have resolve: "Spawn cmd \<notin> set (snd (fetch_room_data w url q))"
    using fetch_room_data_trace [of w url q] by auto
  from try_block_cases [of w url q dir dur] assms resolve show ?thesis
    by (auto dest: record_stream_recorded)
qed

subsection \<open>The session\<close>

lemma download_live_stream_started:
  assumes "mkdir w dir = None" and "new_client w cookies = None"
  shows "download_live_stream w url dir q dur cookies =
     (case fst (try_block w url dir q dur) of
        Inr v \<Rightarrow> (Inr VNone, MkDir dir # NewClient cookies # snd (try_block w url dir q dur))
      | Inl KeyboardInterrupt \<Rightarrow>
          (Inr VNone, MkDir dir # NewClient cookies # snd (try_block w url dir q dur)
                        @ [Print (LogUserStopped q)])
      | Inl (Exception m) \<Rightarrow>
          (Inr VNone, MkDir dir # NewClient cookies # snd (try_block w url dir q dur)
                        @ [Print (LogError q m), PrintTraceback])
      | Inl (OtherBaseException m) \<Rightarrow>
          (Inl (OtherBaseException m),
           MkDir dir # NewClient cookies # snd (try_block w url dir q dur)))"
  using assms
  by (auto simp: download_live_stream_def split: prod.splits sum.splits exn.splits)

lemma download_live_stream_result:
  assumes "mkdir w dir = None" and "new_client w cookies = None"
  shows "fst (download_live_stream w url dir q dur cookies) =
           (case fst (try_block w url dir q dur) of
              Inl (OtherBaseException m) \<Rightarrow> Inl (OtherBaseException m)
            | _ \<Rightarrow> Inr VNone)"
  by (simp add: download_live_stream_started [OF assms] split: sum.splits exn.splits)

lemma download_live_stream_returns:
  assumes "mkdir w dir = None" and "new_client w cookies = None"
    and "\<not> uncaught (fetch_web_stream_data w url)" and "\<not> uncaught (fetch_app_stream_data w url)"
    and "\<forall>data. \<not> uncaught (fetch_stream_url w data q)"
    and "\<forall>cmd. \<not> uncaught (subprocess_exec w cmd)"
  shows "fst (download_live_stream w url dir q dur cookies) = Inr VNone"
proof -
  have "fst (try_block w url dir q dur) \<noteq> Inl (OtherBaseException m)" for m
    using try_block_uncaught [of w url dir q dur m] assms(3-6) by blast
  then show ?thesis
    by (simp add: download_live_stream_result [OF assms(1,2)] split: sum.splits exn.splits)
qed

lemma download_live_stream_value:
  "fst (download_live_stream w url dir q dur cookies) = Inr v \<Longrightarrow> v = VNone"
  by (auto simp: download_live_stream_def split: option.splits prod.splits sum.splits exn.splits)

lemma download_live_stream_fetch_web:
  assumes "mkdir w dir = None" and "new_client w cookies = None"
  shows "filter is_fetch_web (snd (download_live_stream w url dir q dur cookies)) = [FetchWeb url]"
  by (simp add: download_live_stream_started [OF assms] try_block_fetch_web
      split: sum.splits exn.splits)

lemma download_live_stream_recorded:
  assumes "mkdir w dir = None" and "new_client w cookies = None"
    and "Spawn cmd \<in> set (snd (download_live_stream w url dir q dur cookies))"
    and "subprocess_exec w cmd = Inr p" and "returncode p \<noteq> 0"
  shows "Print (LogFfmpegError q (take 200 (decode_utf8_ignore w (stderr p))))
           \<in> set (snd (download_live_stream w url dir q dur cookies))"
proof -
  from assms(3) have "Spawn cmd \<in> set (snd (try_block w url dir q dur))"
    by (auto simp: download_live_stream_started [OF assms(1,2)] split: sum.splits exn.splits)
  from try_block_recorded [OF this assms(4,5)] show ?thesis
    by (auto simp: download_live_stream_started [OF assms(1,2)] split: sum.splits exn.splits)
qed

lemma download_live_stream_not_live:
  assumes "mkdir w dir = None" and "new_client w cookies = None"
    and "fetch_room_data w url q = (Inr data, t)" and "room_status data \<noteq> VInt 2"
  shows "download_live_stream w url dir q dur cookies =
           (Inr VNone,
            [MkDir dir, NewClient cookies, Print (LogFetching q url)] @ t
              @ [Print (LogNotLive q (room_status data))])"
  by (simp add: download_live_stream_started [OF assms(1,2)] try_block_not_live [OF assms(3,4)])

lemma download_live_stream_unresolved:
  assumes "mkdir w dir = None" and "new_client w cookies = None"
    and "fetch_room_data w url q = (Inl (Exception m), t)"
  shows "download_live_stream w url dir q dur cookies =
           (Inr VNone,
            [MkDir dir, NewClient cookies, Print (LogFetching q url)] @ t
              @ [Print (LogError q m), PrintTraceback])"
  by (simp add: download_live_stream_started [OF assms(1,2)] try_block_resolution_failed [OF assms(3)])

lemma download_live_stream_no_url:
  assumes "mkdir w dir = None" and "new_client w cookies = None"
    and "fetch_room_data w url q = (Inr data, t)" and "room_status data = VInt 2"
    and "fetch_stream_url w data q = Inr sd" and "\<not> truthy_str (select_stream_url sd)"
  shows "download_live_stream w url dir q dur cookies =
           (Inr VNone,
            [MkDir dir, NewClient cookies, Print (LogFetching q url)] @ t @
              [Print (LogAnchor q (data (ascii ''anchor_name''))),
               Print (LogTitle q (data (ascii ''title''))),
               FetchStreamUrl q, Print (LogNoStreamUrl q)])"
  by (simp add: download_live_stream_started [OF assms(1,2)] try_block_no_url [OF assms(3-6)])

lemma download_live_stream_spawns:
  assumes "mkdir w dir = None" and "new_client w cookies = None"
    and "fetch_room_data w url q = (Inr data, t)" and "room_status data = VInt 2"
    and "fetch_stream_url w data q = Inr sd" and "select_stream_url sd = Some su" and "su \<noteq> []"
    and "anchor_name_for_file data = (Inr name, [])"
  shows "filter is_spawn (snd (download_live_stream w url dir q dur cookies)) =
           [Spawn (ffmpeg_cmd su (output_path w dir name q (file_ext su)) dur)]"
proof -
  obtain rest where
    trace: "snd (download_with_ffmpeg w su (output_path w dir name q (file_ext su)) dur q) =
              Spawn (ffmpeg_cmd su (output_path w dir name q (file_ext su)) dur) # rest"
    and prints: "\<forall>ev \<in> set rest. \<exists>msg. ev = Print msg"
    using download_with_ffmpeg_trace by blast
  from prints have rest: "filter is_spawn rest = []"
    by (auto simp: filter_empty_conv)
  from fetch_room_data_no_capture [of w url q] assms(3)
  have resolve: "filter is_spawn t = []" by simp
  show ?thesis
    by (simp add: download_live_stream_started [OF assms(1,2)] try_block_live [OF assms(3-7)]
        record_stream_named [OF assms(8)] trace rest resolve split: sum.splits exn.splits)
qed

subsection \<open>The example inputs\<close>

lemma example_setup:
  "mkdir (example_world web app su proc) dir = None"
  "new_client (example_world web app su proc) cookies = None"
  by (simp_all add: example_world_def)

lemma example_answers:
  "fetch_web_stream_data (example_world web app su proc) url = web"
  "fetch_app_stream_data (example_world web app su proc) url = app"
  "fetch_stream_url (example_world web app su proc) data q = su"
  "subprocess_exec (example_world web app su proc) cmd = proc"
  by (simp_all add: example_world_def)

lemma example_rooms:
  "room_status live_room = VInt 2"
  "room_status offline_room = VInt 4"
  "room_without_status (ascii ''status'') = None"
  "anchor_name_for_file live_room = (Inr (ascii ''abc''), [])"
  by (simp_all add: room_status_def live_room_def offline_room_def room_without_status_def
      anchor_name_for_file_def io_return_def py_replace_char_def ascii_def)

lemma example_streams:
  "select_stream_url flv_stream = Some (ascii ''http://h/s.flv'')"
  "select_stream_url hls_stream = Some (ascii ''http://h/s.m3u8'')"
  "\<not> truthy_str (select_stream_url no_stream)"
  by (simp_all add: select_stream_url_def py_or_def truthy_str_def flv_stream_def hls_stream_def
      no_stream_def ascii_def)

subsection \<open>The run\<close>

lemma gather_traces: "snd (gather tasks) = map snd tasks"
  by (induction tasks) (auto split: prod.splits)

lemma gather_returns:
  "(\<forall>task \<in> set tasks. \<exists>v. fst task = Inr v) \<Longrightarrow> \<exists>rs. fst (gather tasks) = Inr rs"
  by (induction tasks) (auto split: prod.splits sum.splits)

lemma enumerate_sessions:
  "map (\<lambda>(i, q). f i q) (enumerate 0 qs) = map (\<lambda>i. f i (qs ! i)) [0..<length qs]"
  by (rule nth_equalityI) (simp_all add: nth_enumerate_eq)

lemma run_sessions_traces:
  "snd (snd (run_sessions worlds url dir qs dur cookies)) =
     map (\<lambda>i. snd (download_live_stream (worlds i) url dir (qs ! i) dur cookies)) [0..<length qs]"
proof -
  have "snd (snd (run_sessions worlds url dir qs dur cookies)) =
      snd (gather (map (\<lambda>(i, q). download_live_stream (worlds i) url dir q dur cookies)
                 (enumerate 0 qs)))"
    by (auto simp: run_sessions_def Let_def split: prod.splits sum.splits)
  also have "\<dots> = map snd (map (\<lambda>(i, q). download_live_stream (worlds i) url dir q dur cookies)
                 (enumerate 0 qs))"
    by (rule gather_traces)
  also have "\<dots> = map (\<lambda>i. snd (download_live_stream (worlds i) url dir (qs ! i) dur cookies))
                     [0..<length qs]"
    by (simp add: enumerate_sessions comp_def)
  finally show ?thesis .
qed

lemma run_sessions_value:
  "fst (run_sessions worlds url dir qs dur cookies) = Inr v \<Longrightarrow> v = VNone"
  by (auto simp: run_sessions_def Let_def split: prod.splits sum.splits)

lemma run_sessions_joined:
  assumes "\<forall>i<length qs. \<exists>v. fst (download_live_stream (worlds i) url dir (qs ! i) dur cookies) = Inr v"
  shows "run_sessions worlds url dir qs dur cookies =
           (Inr VNone,
            [Print (LogRunStart (length qs) (py_join (ascii '', '') qs)), Print LogRunDone],
            map (\<lambda>i. snd (download_live_stream (worlds i) url dir (qs ! i) dur cookies))
              [0..<length qs])"
proof -
  let ?tasks = "map (\<lambda>(i, q). download_live_stream (worlds i) url dir q dur cookies)
                  (enumerate 0 qs)"
  have "?tasks = map (\<lambda>i. download_live_stream (worlds i) url dir (qs ! i) dur cookies)
                   [0..<length qs]"
    by (rule enumerate_sessions)
  with assms have "\<forall>task \<in> set ?tasks. \<exists>v. fst task = Inr v"
    by auto
  then obtain rs where "fst (gather ?tasks) = Inr rs"
    using gather_returns by blast
  then have "fst (run_sessions worlds url dir qs dur cookies) = Inr VNone"
    and "fst (snd (run_sessions worlds url dir qs dur cookies)) =
      [Print (LogRunStart (length qs) (py_join (ascii '', '') qs)), Print LogRunDone]"
    by (auto simp: run_sessions_def Let_def split: prod.splits sum.splits)
  with run_sessions_traces [of worlds url dir qs dur cookies] show ?thesis
    by (metis prod.collapse)
qed

lemma count_concat:
  "(\<forall>x \<in> set xs. length (filter P (f x)) = 1) \<Longrightarrow>
   length (filter P (concat (map f xs))) = length xs"
  by (induction xs) auto

lemma offline_session:
  "download_live_stream offline_world url dir q dur cookies =
     (Inr VNone,
      [MkDir dir, NewClient cookies, Print (LogFetching q url), FetchWeb url,
       Print (LogNotLive q (VInt 4))])"
proof -
  have "fetch_room_data offline_world url q = (Inr offline_room, [FetchWeb url])"
    by (simp add: offline_world_def example_answers fetch_room_data_web)
  from download_live_stream_not_live [OF _ _ this, of dir cookies dur]
  show ?thesis
    by (simp add: offline_world_def example_setup example_rooms)
qed

lemma denied_session:
  "download_live_stream denied_world url dir q dur cookies =
     (Inl (Exception (ascii ''File exists'')), [MkDir dir])"
  by (simp add: download_live_stream_def denied_world_def)

lemma cancelled_session:
  "download_live_stream cancelled_world url dir q dur cookies =
     (Inl (OtherBaseException (ascii ''cancelled'')),
      [MkDir dir, NewClient cookies, Print (LogFetching q url), FetchWeb url])"
proof -
  have "fetch_room_data cancelled_world url q =
      (Inl (OtherBaseException (ascii ''cancelled'')), [FetchWeb url])"
    by (simp add: fetch_room_data_def cancelled_world_def example_answers)
  then have "try_block cancelled_world url dir q dur =
      (Inl (OtherBaseException (ascii ''cancelled'')), [Print (LogFetching q url), FetchWeb url])"
    by (simp add: try_block_resolution_failed)
  then show ?thesis
    by (simp add: download_live_stream_def cancelled_world_def example_setup)
qed

section \<open>Isolation of the sessions\<close>

text \<open>
  C1, as the specification states it: the session function never raises to the
  orchestrator, and the outcome of one session never cancels, blocks or alters
  the others. The directory and the client are made before the \<^verbatim>\<open>try\<close> (lines 21
  and 24), and the handlers catch \<^verbatim>\<open>KeyboardInterrupt\<close> and \<^verbatim>\<open>Exception\<close> only. So a
  session whose directory cannot be made raises, and so does a session that is
  cancelled while it resolves the room; in the run of \<^verbatim>\<open>main\<close> whose first session
  cannot make its directory the exception leaves \<^verbatim>\<open>main\<close>, which has printed its
  first line only.
\<close>

theorem session_never_raises_counterexample:
  "download_live_stream denied_world main_url (ascii ''downloads'') (ascii ''OD'') (Some 600) None =
     (Inl (Exception (ascii ''File exists'')), [MkDir (ascii ''downloads'')])
   \<and> download_live_stream cancelled_world main_url (ascii ''downloads'') (ascii ''OD'') (Some 600)
        None =
       (Inl (OtherBaseException (ascii ''cancelled'')),
        [MkDir (ascii ''downloads''), NewClient None, Print (LogFetching (ascii ''OD'') main_url),
         FetchWeb main_url])
   \<and> fst (main denied_worlds) = Inl (Exception (ascii ''File exists''))
   \<and> fst (snd (main denied_worlds)) = [Print (LogRunStart 5 (ascii ''OD, UHD, HD, SD, LD''))]"
proof -
  have run: "main denied_worlds =
      (Inl (Exception (ascii ''File exists'')),
       [Print (LogRunStart 5 (py_join (ascii '', '') main_quality_list))],
       snd (snd (main denied_worlds)))"
    by (simp add: main_def run_sessions_def main_quality_list_def denied_worlds_def
        denied_session offline_session)
  have line: "py_join (ascii '', '') main_quality_list = ascii ''OD, UHD, HD, SD, LD''"
    by (simp add: main_quality_list_def ascii_def)
  from run line have "fst (main denied_worlds) = Inl (Exception (ascii ''File exists''))"
    and "fst (snd (main denied_worlds)) = [Print (LogRunStart 5 (ascii ''OD, UHD, HD, SD, LD''))]"
    by (metis fst_conv, metis fst_conv snd_conv)
  then show ?thesis
    by (simp add: denied_session cancelled_session)
qed

text \<open>
  C1, amended: take a run in which every session has made its directory and its
  client (both happen before the \<^verbatim>\<open>try\<close>) and in which no collaborator answers with
  an exception outside \<^verbatim>\<open>Exception\<close> and \<^verbatim>\<open>KeyboardInterrupt\<close>. Then every session
  returns \<^verbatim>\<open>None\<close>, so nothing is raised to \<^verbatim>\<open>main\<close>: the run waits for all sessions,
  returns \<^verbatim>\<open>None\<close>, and the trace of each session is the one the session has on its
  own. Each failure is recorded by the session it happens in: a resolution error
  as the error line with the message of the exception, a missing stream address
  as the "no address" line, a process that ends with a non-zero return code as the
  error line of the capture.
\<close>

theorem session_failures_contained:
  assumes made: "\<forall>i<length quality_list.
      mkdir (worlds i) output_dir = None \<and> new_client (worlds i) cookies = None"
    and caught: "\<forall>i<length quality_list.
      \<not> uncaught (fetch_web_stream_data (worlds i) url)
      \<and> \<not> uncaught (fetch_app_stream_data (worlds i) url)
      \<and> (\<forall>data. \<not> uncaught (fetch_stream_url (worlds i) data (quality_list ! i)))
      \<and> (\<forall>cmd. \<not> uncaught (subprocess_exec (worlds i) cmd))"
  shows "run_sessions worlds url output_dir quality_list duration cookies =
           (Inr VNone,
            [Print (LogRunStart (length quality_list) (py_join (ascii '', '') quality_list)),
             Print LogRunDone],
            map (\<lambda>i. snd (download_live_stream (worlds i) url output_dir (quality_list ! i)
                             duration cookies))
              [0..<length quality_list])
       \<and> (\<forall>i<length quality_list.
            fst (download_live_stream (worlds i) url output_dir (quality_list ! i) duration cookies)
              = Inr VNone
            \<and> (\<forall>m t. fetch_room_data (worlds i) url (quality_list ! i) = (Inl (Exception m), t)
                  \<longrightarrow> Print (LogError (quality_list ! i) m)
                        \<in> set (snd (download_live_stream (worlds i) url output_dir
                                       (quality_list ! i) duration cookies)))
            \<and> (\<forall>data t sd. fetch_room_data (worlds i) url (quality_list ! i) = (Inr data, t)
                  \<and> room_status data = VInt 2
                  \<and> fetch_stream_url (worlds i) data (quality_list ! i) = Inr sd
                  \<and> \<not> truthy_str (select_stream_url sd)
                  \<longrightarrow> Print (LogNoStreamUrl (quality_list ! i))
                        \<in> set (snd (download_live_stream (worlds i) url output_dir
                                       (quality_list ! i) duration cookies)))
            \<and> (\<forall>cmd process.
                  Spawn cmd \<in> set (snd (download_live_stream (worlds i) url output_dir
                                          (quality_list ! i) duration cookies))
                  \<and> subprocess_exec (worlds i) cmd = Inr process \<and> returncode process \<noteq> 0
                  \<longrightarrow> Print (LogFfmpegError (quality_list ! i)
                               (take 200 (decode_utf8_ignore (worlds i) (stderr process))))
                        \<in> set (snd (download_live_stream (worlds i) url output_dir
                                       (quality_list ! i) duration cookies))))"
proof -
  have returns: "fst (download_live_stream (worlds i) url output_dir (quality_list ! i)
                        duration cookies) = Inr VNone"
    if "i < length quality_list" for i
    using made caught that by (intro download_live_stream_returns) simp_all
  have unresolved: "Print (LogError (quality_list ! i) m)
        \<in> set (snd (download_live_stream (worlds i) url output_dir (quality_list ! i)
                       duration cookies))"
    if "i < length quality_list"
      and "fetch_room_data (worlds i) url (quality_list ! i) = (Inl (Exception m), t)" for i m t
  proof -
    from made that(1) have "mkdir (worlds i) output_dir = None" "new_client (worlds i) cookies = None"
      by simp_all
    from download_live_stream_unresolved [OF this that(2)] show ?thesis
      by simp
  qed
  have no_url: "Print (LogNoStreamUrl (quality_list ! i))
        \<in> set (snd (download_live_stream (worlds i) url output_dir (quality_list ! i)
                       duration cookies))"
    if "i < length quality_list"
      and "fetch_room_data (worlds i) url (quality_list ! i) = (Inr data, t)"
      and "room_status data = VInt 2"
      and "fetch_stream_url (worlds i) data (quality_list ! i) = Inr sd"
      and "\<not> truthy_str (select_stream_url sd)" for i data t sd
  proof -
    from made that(1) have "mkdir (worlds i) output_dir = None" "new_client (worlds i) cookies = None"
      by simp_all
    from download_live_stream_no_url [OF this that(2-5)] show ?thesis
      by simp
  qed
  have exit: "Print (LogFfmpegError (quality_list ! i)
                 (take 200 (decode_utf8_ignore (worlds i) (stderr process))))
        \<in> set (snd (download_live_stream (worlds i) url output_dir (quality_list ! i)
                       duration cookies))"
    if "i < length quality_list"
      and "Spawn cmd \<in> set (snd (download_live_stream (worlds i) url output_dir
                                   (quality_list ! i) duration cookies))"
      and "subprocess_exec (worlds i) cmd = Inr process" and "returncode process \<noteq> 0"
    for i cmd process
  proof -
    from made that(1) have "mkdir (worlds i) output_dir = None" "new_client (worlds i) cookies = None"
      by simp_all
    from download_live_stream_recorded [OF this that(2-4)] show ?thesis .
  qed
  have joined: "run_sessions worlds url output_dir quality_list duration cookies =
           (Inr VNone,
            [Print (LogRunStart (length quality_list) (py_join (ascii '', '') quality_list)),
             Print LogRunDone],
            map (\<lambda>i. snd (download_live_stream (worlds i) url output_dir (quality_list ! i)
                             duration cookies))
              [0..<length quality_list])"
    by (rule run_sessions_joined) (simp add: returns)
  from joined returns unresolved no_url exit show ?thesis
    by blast
qed

theorem session_failures_contained_witness:
  "fetch_room_data (example_worlds 0) main_url (ascii ''OD'') =
     (Inl (Exception (both_failed_message (ascii ''timed out'') (replicate 60 120))),
      [FetchWeb main_url, Print (LogWebFailed (ascii ''OD'') (ascii ''timed out'')),
       FetchApp main_url])
   \<and> fetch_stream_url (example_worlds 1) live_room (ascii ''HD'') = Inr no_stream
   \<and> \<not> truthy_str (select_stream_url no_stream)
   \<and> subprocess_exec (example_worlds 2)
        (ffmpeg_cmd (ascii ''http://h/s.flv'')
           (output_path failing_world (ascii ''d'') (ascii ''abc'') (ascii ''SD'') (ascii ''flv''))
           (Some 600))
       = Inr (exited 1 (98 # replicate 200 97))
   \<and> fst (run_sessions example_worlds main_url (ascii ''d'') example_qualities (Some 600) None)
       = Inr VNone
   \<and> Print (LogError (ascii ''OD'')
        (both_failed_message (ascii ''timed out'') (replicate 60 120)))
       \<in> set (snd (snd (run_sessions example_worlds main_url (ascii ''d'') example_qualities
                          (Some 600) None)) ! 0)
   \<and> Print (LogNoStreamUrl (ascii ''HD''))
       \<in> set (snd (snd (run_sessions example_worlds main_url (ascii ''d'') example_qualities
                          (Some 600) None)) ! 1)
   \<and> Print (LogFfmpegError (ascii ''SD'') (98 # replicate 199 97))
       \<in> set (snd (snd (run_sessions example_worlds main_url (ascii ''d'') example_qualities
                          (Some 600) None)) ! 2)"
proof -
  let ?run = "run_sessions example_worlds main_url (ascii ''d'') example_qualities (Some 600) None"
  let ?session = "\<lambda>i. download_live_stream (example_worlds i) main_url (ascii ''d'')
                         (example_qualities ! i) (Some 600) None"
  let ?out = "output_path failing_world (ascii ''d'') (ascii ''abc'') (ascii ''SD'') (ascii ''flv'')"
  let ?cmd = "ffmpeg_cmd (ascii ''http://h/s.flv'') ?out (Some 600)"
  have worlds: "example_worlds 0 = unresolved_world" "example_worlds 1 = no_stream_world"
    "example_worlds 2 = failing_world"
    by (simp_all add: example_worlds_def)
  have labels: "length example_qualities = 3" "example_qualities ! 0 = ascii ''OD''"
    "example_qualities ! 1 = ascii ''HD''" "example_qualities ! 2 = ascii ''SD''"
    by (simp_all add: example_qualities_def)
  have made: "\<forall>i<length example_qualities.
      mkdir (example_worlds i) (ascii ''d'') = None \<and> new_client (example_worlds i) None = None"
    by (simp add: example_worlds_def unresolved_world_def no_stream_world_def failing_world_def
        example_setup)
  have caught: "\<forall>i<length example_qualities.
      \<not> uncaught (fetch_web_stream_data (example_worlds i) main_url)
      \<and> \<not> uncaught (fetch_app_stream_data (example_worlds i) main_url)
      \<and> (\<forall>data. \<not> uncaught (fetch_stream_url (example_worlds i) data (example_qualities ! i)))
      \<and> (\<forall>cmd. \<not> uncaught (subprocess_exec (example_worlds i) cmd))"
    by (simp add: example_worlds_def unresolved_world_def no_stream_world_def failing_world_def
        example_answers uncaught_def timeout_error_def)
  note inst = session_failures_contained [OF made caught, of "Some 600"]
  note whole = inst [THEN conjunct1]
  note each = inst [THEN conjunct2, rule_format]
  from whole have result: "fst ?run = Inr VNone"
    by simp
  from whole labels(1) have traces: "snd (snd ?run) ! 0 = snd (?session 0)"
    "snd (snd ?run) ! 1 = snd (?session 1)" "snd (snd ?run) ! 2 = snd (?session 2)"
    by (simp_all add: numeral_2_eq_2)
  have zero: "(0::nat) < length example_qualities" and one: "(1::nat) < length example_qualities"
    and two: "(2::nat) < length example_qualities"
    by (simp_all add: labels)
  have unresolved: "fetch_room_data (example_worlds 0) main_url (ascii ''OD'') =
     (Inl (Exception (both_failed_message (ascii ''timed out'') (replicate 60 120))),
      [FetchWeb main_url, Print (LogWebFailed (ascii ''OD'') (ascii ''timed out'')),
       FetchApp main_url])"
    unfolding worlds
    by (simp add: unresolved_world_def example_answers timeout_error_def
        fetch_room_data_both_failed)
  from each [OF zero, THEN conjunct2, THEN conjunct1, rule_format, unfolded labels] unresolved
  have r0: "Print (LogError (ascii ''OD'')
        (both_failed_message (ascii ''timed out'') (replicate 60 120)))
      \<in> set (snd (download_live_stream (example_worlds 0) main_url (ascii ''d'') (ascii ''OD'')
                      (Some 600) None))"
    by blast
  have resolved1: "fetch_room_data (example_worlds 1) main_url (ascii ''HD'') =
      (Inr live_room,
       [FetchWeb main_url, Print (LogWebFailed (ascii ''HD'') (ascii ''timed out'')),
        FetchApp main_url])"
    unfolding worlds
    by (simp add: no_stream_world_def example_answers timeout_error_def fetch_room_data_app)
  have stream1: "fetch_stream_url (example_worlds 1) live_room (ascii ''HD'') = Inr no_stream"
    unfolding worlds by (simp add: no_stream_world_def example_answers)
  from each [OF one, THEN conjunct2, THEN conjunct2, THEN conjunct1, rule_format,
      of live_room _ no_stream, unfolded labels]
    resolved1 stream1 example_rooms(1) example_streams(3)
  have r1: "Print (LogNoStreamUrl (ascii ''HD''))
      \<in> set (snd (download_live_stream (example_worlds 1) main_url (ascii ''d'') (ascii ''HD'')
                      (Some 600) None))"
    by blast
  have resolved2: "fetch_room_data failing_world main_url (ascii ''SD'') =
      (Inr live_room, [FetchWeb main_url])"
    by (simp add: failing_world_def example_answers fetch_room_data_web)
  have ext: "file_ext (ascii ''http://h/s.flv'') = ascii ''flv''"
    by (simp add: file_ext_def endswith_def ascii_def)
  have run: "subprocess_exec (example_worlds 2) ?cmd = Inr (exited 1 (98 # replicate 200 97))"
    by (simp add: example_worlds_def failing_world_def example_answers)
  have code: "returncode (exited 1 (98 # replicate 200 97)) \<noteq> 0"
    by (simp add: exited_def)
  have nonempty: "ascii ''http://h/s.flv'' \<noteq> []"
    by (simp add: ascii_def)
  have "Spawn ?cmd \<in> set (filter is_spawn
      (snd (download_live_stream (example_worlds 2) main_url (ascii ''d'') (ascii ''SD'')
              (Some 600) None)))"
    unfolding worlds
    using download_live_stream_spawns [of failing_world "ascii ''d''" None main_url "ascii ''SD''"
        live_room "[FetchWeb main_url]" flv_stream "ascii ''http://h/s.flv''" "ascii ''abc''"
        "Some 600"]
    by (simp add: failing_world_def example_setup example_answers example_rooms
        example_streams resolved2 [unfolded failing_world_def] nonempty ext)
  then have spawned: "Spawn ?cmd
      \<in> set (snd (download_live_stream (example_worlds 2) main_url (ascii ''d'') (ascii ''SD'')
                      (Some 600) None))"
    by simp
  have detail: "take 200 (decode_utf8_ignore (example_worlds 2)
                  (stderr (exited 1 (98 # replicate 200 97)))) = 98 # replicate 199 97"
    unfolding worlds by (simp add: failing_world_def example_world_def exited_def)
  from each [OF two, THEN conjunct2, THEN conjunct2, THEN conjunct2, rule_format,
      of ?cmd "exited 1 (98 # replicate 200 97)", unfolded labels]
    spawned run code
  have "Print (LogFfmpegError (ascii ''SD'')
           (take 200 (decode_utf8_ignore (example_worlds 2)
              (stderr (exited 1 (98 # replicate 200 97))))))
      \<in> set (snd (download_live_stream (example_worlds 2) main_url (ascii ''d'') (ascii ''SD'')
                      (Some 600) None))"
    by blast
  then have r2: "Print (LogFfmpegError (ascii ''SD'') (98 # replicate 199 97))
      \<in> set (snd (download_live_stream (example_worlds 2) main_url (ascii ''d'') (ascii ''SD'')
                      (Some 600) None))"
    unfolding detail .
  note sessions = traces [unfolded labels]
  from unresolved stream1 example_streams(3) run result
    r0 [folded sessions] r1 [folded sessions] r2 [folded sessions]
  show ?thesis
    by blast
qed

section \<open>Resolution fallback\<close>

text \<open>
  C2: the web method is always called first; the app method is called exactly when
  the web method raised an \<^verbatim>\<open>Exception\<close>; the answer of the method that succeeded is
  the result as it is; when both raise an \<^verbatim>\<open>Exception\<close> one exception is raised whose
  message is a fixed text around the first 50 characters of each cause.
\<close>

theorem resolution_fallback:
  "hd (snd (fetch_room_data w url quality)) = FetchWeb url
   \<and> (FetchApp url \<in> set (snd (fetch_room_data w url quality))
        \<longleftrightarrow> (\<exists>m1. fetch_web_stream_data w url = Inl (Exception m1)))
   \<and> (\<forall>data. fetch_web_stream_data w url = Inr data \<longrightarrow>
          fetch_room_data w url quality = (Inr data, [FetchWeb url]))
   \<and> (\<forall>m1 data. fetch_web_stream_data w url = Inl (Exception m1)
          \<and> fetch_app_stream_data w url = Inr data \<longrightarrow>
          fetch_room_data w url quality =
            (Inr data, [FetchWeb url, Print (LogWebFailed quality m1), FetchApp url]))
   \<and> (\<forall>m1 m2. fetch_web_stream_data w url = Inl (Exception m1)
          \<and> fetch_app_stream_data w url = Inl (Exception m2) \<longrightarrow>
          fetch_room_data w url quality =
            (Inl (Exception (both_failed_message m1 m2)),
             [FetchWeb url, Print (LogWebFailed quality m1), FetchApp url])
          \<and> both_failed_message m1 m2 =
              take 18 (both_failed_message [] []) @ take 50 m1
                @ drop 18 (both_failed_message [] []) @ take 50 m2
          \<and> length (both_failed_message m1 m2) = 24 + min (length m1) 50 + min (length m2) 50)"
proof -
  have fixed: "both_failed_message m1 m2 =
      take 18 (both_failed_message [] []) @ take 50 m1
        @ drop 18 (both_failed_message [] []) @ take 50 m2" for m1 m2
    by (simp add: both_failed_message_def ascii_def)
  have first: "hd (snd (fetch_room_data w url quality)) = FetchWeb url"
    by (rule fetch_room_data_hd)
  have second: "FetchApp url \<in> set (snd (fetch_room_data w url quality))
        \<longleftrightarrow> (\<exists>m1. fetch_web_stream_data w url = Inl (Exception m1))"
    by (rule fetch_room_data_app_iff)
  have web: "\<forall>data. fetch_web_stream_data w url = Inr data \<longrightarrow>
          fetch_room_data w url quality = (Inr data, [FetchWeb url])"
    by (simp add: fetch_room_data_web)
  have app: "\<forall>m1 data. fetch_web_stream_data w url = Inl (Exception m1)
          \<and> fetch_app_stream_data w url = Inr data \<longrightarrow>
          fetch_room_data w url quality =
            (Inr data, [FetchWeb url, Print (LogWebFailed quality m1), FetchApp url])"
    by (simp add: fetch_room_data_app)
  have both: "\<forall>m1 m2. fetch_web_stream_data w url = Inl (Exception m1)
          \<and> fetch_app_stream_data w url = Inl (Exception m2) \<longrightarrow>
          fetch_room_data w url quality =
            (Inl (Exception (both_failed_message m1 m2)),
             [FetchWeb url, Print (LogWebFailed quality m1), FetchApp url])
          \<and> both_failed_message m1 m2 =
              take 18 (both_failed_message [] []) @ take 50 m1
                @ drop 18 (both_failed_message [] []) @ take 50 m2
          \<and> length (both_failed_message m1 m2) = 24 + min (length m1) 50 + min (length m2) 50"
    by (intro allI impI conjI)
       (simp add: fetch_room_data_both_failed, rule fixed, rule both_failed_message_length)
  from first second web app both show ?thesis
    by (intro conjI)
qed

theorem resolution_fallback_witness:
  "fetch_web_stream_data unresolved_world main_url = Inl (Exception (ascii ''timed out''))
   \<and> fetch_app_stream_data unresolved_world main_url = Inl (Exception (replicate 60 120))
   \<and> fetch_room_data unresolved_world main_url (ascii ''OD'') =
       (Inl (Exception (both_failed_message (ascii ''timed out'') (replicate 60 120))),
        [FetchWeb main_url, Print (LogWebFailed (ascii ''OD'') (ascii ''timed out'')),
         FetchApp main_url])
   \<and> length (both_failed_message (ascii ''timed out'') (replicate 60 120)) = 83
   \<and> fetch_web_stream_data no_stream_world main_url = Inl (Exception (ascii ''timed out''))
   \<and> fetch_app_stream_data no_stream_world main_url = Inr live_room
   \<and> fetch_room_data no_stream_world main_url (ascii ''OD'') =
       (Inr live_room,
        [FetchWeb main_url, Print (LogWebFailed (ascii ''OD'') (ascii ''timed out'')),
         FetchApp main_url])
   \<and> fetch_web_stream_data offline_world main_url = Inr offline_room
   \<and> fetch_room_data offline_world main_url (ascii ''OD'') = (Inr offline_room, [FetchWeb main_url])"
proof -
  have web1: "fetch_web_stream_data unresolved_world main_url = Inl (Exception (ascii ''timed out''))"
    and app1: "fetch_app_stream_data unresolved_world main_url = Inl (Exception (replicate 60 120))"
    by (simp_all add: unresolved_world_def example_answers timeout_error_def)
  have web2: "fetch_web_stream_data no_stream_world main_url = Inl (Exception (ascii ''timed out''))"
    and app2: "fetch_app_stream_data no_stream_world main_url = Inr live_room"
    by (simp_all add: no_stream_world_def example_answers timeout_error_def)
  have web3: "fetch_web_stream_data offline_world main_url = Inr offline_room"
    by (simp add: offline_world_def example_answers)
  have len: "24 + min (length (ascii ''timed out'')) 50 + min (length (replicate 60 (120::nat))) 50 = 83"
    by (simp add: ascii_def)
  from resolution_fallback [of unresolved_world main_url "ascii ''OD''"] web1 app1
  have r1: "fetch_room_data unresolved_world main_url (ascii ''OD'') =
       (Inl (Exception (both_failed_message (ascii ''timed out'') (replicate 60 120))),
        [FetchWeb main_url, Print (LogWebFailed (ascii ''OD'') (ascii ''timed out'')),
         FetchApp main_url])"
    and l1: "length (both_failed_message (ascii ''timed out'') (replicate 60 120)) =
         24 + min (length (ascii ''timed out'')) 50 + min (length (replicate 60 (120::nat))) 50"
    by blast+
  from resolution_fallback [of no_stream_world main_url "ascii ''OD''"] web2 app2
  have r2: "fetch_room_data no_stream_world main_url (ascii ''OD'') =
       (Inr live_room,
        [FetchWeb main_url, Print (LogWebFailed (ascii ''OD'') (ascii ''timed out'')),
         FetchApp main_url])"
    by blast
  from resolution_fallback [of offline_world main_url "ascii ''OD''"] web3
  have r3: "fetch_room_data offline_world main_url (ascii ''OD'') = (Inr offline_room, [FetchWeb main_url])"
    by blast
  from web1 app1 r1 l1 len web2 app2 r2 web3 r3 show ?thesis by simp
qed

section \<open>Rooms that are not live\<close>

text \<open>
  C3: when the resolved room data has a status other than 2, a session that got as
  far as resolving returns \<^verbatim>\<open>None\<close> right after the "not live" line: its trace has no
  request for a stream address and no start of a capture process, so no output
  file is written.
\<close>

theorem not_live_short_circuit:
  assumes "mkdir w output_dir = None" and "new_client w cookies = None"
    and "fetch_room_data w url quality = (Inr data, t)"
    and "room_status data \<noteq> VInt 2"
  shows "download_live_stream w url output_dir quality duration cookies =
           (Inr VNone,
            [MkDir output_dir, NewClient cookies, Print (LogFetching quality url)] @ t
              @ [Print (LogNotLive quality (room_status data))])
       \<and> filter is_fetch_stream_url
            (snd (download_live_stream w url output_dir quality duration cookies)) = []
       \<and> filter is_spawn
            (snd (download_live_stream w url output_dir quality duration cookies)) = []"
proof -
  from fetch_room_data_no_capture [of w url quality] assms(3)
  have "filter is_fetch_stream_url t = []" and "filter is_spawn t = []"
    by simp_all
  then show ?thesis
    by (simp add: download_live_stream_not_live [OF assms])
qed

theorem not_live_short_circuit_witness:
  "mkdir offline_world (ascii ''downloads'') = None
   \<and> new_client offline_world None = None
   \<and> fetch_room_data offline_world main_url (ascii ''HD'') = (Inr offline_room, [FetchWeb main_url])
   \<and> room_status offline_room \<noteq> VInt 2
   \<and> download_live_stream offline_world main_url (ascii ''downloads'') (ascii ''HD'') (Some 600) None =
       (Inr VNone,
        [MkDir (ascii ''downloads''), NewClient None, Print (LogFetching (ascii ''HD'') main_url),
         FetchWeb main_url, Print (LogNotLive (ascii ''HD'') (VInt 4))])"
proof -
  have dir: "mkdir offline_world (ascii ''downloads'') = None"
    and client: "new_client offline_world None = None"
    by (simp_all add: offline_world_def example_setup)
  have resolved: "fetch_room_data offline_world main_url (ascii ''HD'') =
      (Inr offline_room, [FetchWeb main_url])"
    by (simp add: offline_world_def example_answers fetch_room_data_web)
  have status: "room_status offline_room \<noteq> VInt 2"
    by (simp add: example_rooms)
  from not_live_short_circuit [OF dir client resolved status, of "Some 600"] dir client resolved status
  show ?thesis by (simp add: example_rooms)
qed

text \<open>
  C10: when the resolved room data has no \<^verbatim>\<open>status\<close> entry, the status read is the
  default 4; the session prints the "not live" line with status 4 and returns
  \<^verbatim>\<open>None\<close> without asking for a stream address and without starting a capture
  process. No exception is raised for the missing key.
\<close>

theorem missing_status_is_not_live:
  assumes "mkdir w output_dir = None" and "new_client w cookies = None"
    and "fetch_room_data w url quality = (Inr data, t)"
    and "data (ascii ''status'') = None"
  shows "room_status data = VInt 4
       \<and> download_live_stream w url output_dir quality duration cookies =
           (Inr VNone,
            [MkDir output_dir, NewClient cookies, Print (LogFetching quality url)] @ t
              @ [Print (LogNotLive quality (VInt 4))])
       \<and> filter is_fetch_stream_url
            (snd (download_live_stream w url output_dir quality duration cookies)) = []
       \<and> filter is_spawn
            (snd (download_live_stream w url output_dir quality duration cookies)) = []"
proof -
  from assms(4) have default: "room_status data = VInt 4"
    by (simp add: room_status_def)
  then have offline: "room_status data \<noteq> VInt 2"
    by simp
  from fetch_room_data_no_capture [of w url quality] assms(3)
  have "filter is_fetch_stream_url t = []" and "filter is_spawn t = []"
    by simp_all
  with default show ?thesis
    by (simp add: download_live_stream_not_live [OF assms(1-3) offline])
qed

theorem missing_status_is_not_live_witness:
  "mkdir (example_world (Inr room_without_status) (Inr live_room) (Inr flv_stream)
            (Inr (exited 0 []))) (ascii ''downloads'') = None
   \<and> new_client (example_world (Inr room_without_status) (Inr live_room) (Inr flv_stream)
            (Inr (exited 0 []))) None = None
   \<and> fetch_room_data (example_world (Inr room_without_status) (Inr live_room) (Inr flv_stream)
            (Inr (exited 0 []))) main_url (ascii ''SD'') =
       (Inr room_without_status, [FetchWeb main_url])
   \<and> room_without_status (ascii ''status'') = None
   \<and> download_live_stream (example_world (Inr room_without_status) (Inr live_room)
          (Inr flv_stream) (Inr (exited 0 []))) main_url (ascii ''downloads'') (ascii ''SD'') None None =
       (Inr VNone,
        [MkDir (ascii ''downloads''), NewClient None, Print (LogFetching (ascii ''SD'') main_url),
         FetchWeb main_url, Print (LogNotLive (ascii ''SD'') (VInt 4))])"
proof -
  let ?w = "example_world (Inr room_without_status) (Inr live_room) (Inr flv_stream)
              (Inr (exited 0 []))"
  have dir: "mkdir ?w (ascii ''downloads'') = None"
    and client: "new_client ?w None = None"
    by (simp_all add: example_setup)
  have resolved: "fetch_room_data ?w main_url (ascii ''SD'') =
      (Inr room_without_status, [FetchWeb main_url])"
    by (simp add: example_answers fetch_room_data_web)
  have missing: "room_without_status (ascii ''status'') = None"
    by (simp add: example_rooms)
  from missing_status_is_not_live [OF dir client resolved missing, of None] dir client resolved missing
  show ?thesis by simp
qed

section \<open>Resolution and the run\<close>

text \<open>
  C4, as the specification states it: in a run with N quality labels the room is
  resolved exactly once, before any session starts, and all N qualities share the
  result. In the source each session resolves the room itself (lines 30 to 38 are
  inside \<^verbatim>\<open>download_live_stream\<close>): the run of \<^verbatim>\<open>main\<close> with its five labels calls the
  web method five times.
\<close>

theorem resolve_once_counterexample:
  "length main_quality_list = 5
   \<and> length (filter is_fetch_web (concat (snd (snd (main (\<lambda>i. offline_world)))))) = 5
   \<and> length (filter is_fetch_web (concat (snd (snd (main (\<lambda>i. offline_world)))))) \<noteq> 1"
  by (simp add: main_def run_sessions_traces main_quality_list_def offline_session upt_rec)

text \<open>
  C4, amended: the room is resolved once per session, inside the session, after
  the session has made its directory and its client. Every such session calls the
  web method exactly once, so a run with N quality labels calls it N times, and
  each session works with its own answer.
\<close>

theorem resolve_once_per_session:
  assumes "\<forall>i<length quality_list.
             mkdir (worlds i) output_dir = None \<and> new_client (worlds i) cookies = None"
  shows "(\<forall>i<length quality_list.
            filter is_fetch_web
              (snd (download_live_stream (worlds i) url output_dir (quality_list ! i) duration cookies))
            = [FetchWeb url])
       \<and> length (filter is_fetch_web
            (concat (snd (snd (run_sessions worlds url output_dir quality_list duration cookies)))))
          = length quality_list"
proof -
  have each: "filter is_fetch_web
              (snd (download_live_stream (worlds i) url output_dir (quality_list ! i) duration cookies))
            = [FetchWeb url]" if "i < length quality_list" for i
    using assms that by (simp add: download_live_stream_fetch_web)
  have "length (filter is_fetch_web
          (concat (map (\<lambda>i. snd (download_live_stream (worlds i) url output_dir
                                    (quality_list ! i) duration cookies))
                     [0..<length quality_list]))) = length [0..<length quality_list]"
    by (rule count_concat) (simp add: each)
  with each show ?thesis
    by (simp add: run_sessions_traces)
qed

theorem resolve_once_per_session_witness:
  "mkdir (example_worlds 0) (ascii ''d'') = None \<and> new_client (example_worlds 0) None = None
   \<and> mkdir (example_worlds 1) (ascii ''d'') = None \<and> new_client (example_worlds 1) None = None
   \<and> mkdir (example_worlds 2) (ascii ''d'') = None \<and> new_client (example_worlds 2) None = None
   \<and> length example_qualities = 3
   \<and> length (filter is_fetch_web
        (concat (snd (snd (run_sessions example_worlds main_url (ascii ''d'') example_qualities
                             (Some 600) None))))) = 3"
proof -
  have made: "\<forall>i<length example_qualities.
      mkdir (example_worlds i) (ascii ''d'') = None \<and> new_client (example_worlds i) None = None"
    by (simp add: example_worlds_def unresolved_world_def no_stream_world_def failing_world_def
        example_setup)
  have three: "length example_qualities = 3"
    by (simp add: example_qualities_def)
  from resolve_once_per_session [OF made, of main_url "Some 600"] three
  have "length (filter is_fetch_web
        (concat (snd (snd (run_sessions example_worlds main_url (ascii ''d'') example_qualities
                             (Some 600) None))))) = 3"
    by simp
  with made three show ?thesis
    by simp
qed

text \<open>
  C5, as the specification states it: the orchestrator returns N outcome values,
  one per requested label, in request order. In the source \<^verbatim>\<open>main\<close> drops the value
  of \<^verbatim>\<open>gather\<close> and returns \<^verbatim>\<open>None\<close>: after a run of five sessions over an offline room
  the result is \<^verbatim>\<open>None\<close>, not a sequence of five outcomes.
\<close>

theorem run_report_counterexample:
  "fst (main (\<lambda>i. offline_world)) = Inr VNone
   \<and> \<not> run_report 5 (fst (main (\<lambda>i. offline_world)))"
proof -
  have "fst (main (\<lambda>i. offline_world)) = Inr VNone"
    by (simp add: main_def run_sessions_joined offline_session)
  then show ?thesis
    by (simp add: run_report_def)
qed

text \<open>
  C5, amended: a run with N quality labels has N sessions, one per label. When
  every session returns, whatever path it took, \<^verbatim>\<open>main\<close> has waited for all of them,
  the i-th session is the one of the i-th label, each session returned \<^verbatim>\<open>None\<close> and
  \<^verbatim>\<open>main\<close> returns \<^verbatim>\<open>None\<close>: the outcome of a quality is reported by the lines its
  session prints, and no outcome value is returned.
\<close>

theorem one_session_per_label:
  "length (snd (snd (run_sessions worlds url output_dir quality_list duration cookies)))
     = length quality_list
   \<and> (\<forall>v. fst (run_sessions worlds url output_dir quality_list duration cookies) = Inr v
          \<longrightarrow> v = VNone)
   \<and> ((\<forall>i<length quality_list. \<exists>v.
          fst (download_live_stream (worlds i) url output_dir (quality_list ! i) duration cookies)
            = Inr v) \<longrightarrow>
        run_sessions worlds url output_dir quality_list duration cookies =
          (Inr VNone,
           [Print (LogRunStart (length quality_list) (py_join (ascii '', '') quality_list)),
            Print LogRunDone],
           map (\<lambda>i. snd (download_live_stream (worlds i) url output_dir (quality_list ! i)
                            duration cookies))
             [0..<length quality_list])
        \<and> (\<forall>i<length quality_list.
              fst (download_live_stream (worlds i) url output_dir (quality_list ! i) duration cookies)
                = Inr VNone))"
proof -
  have count: "length (snd (snd (run_sessions worlds url output_dir quality_list duration cookies)))
     = length quality_list"
    by (simp add: run_sessions_traces)
  have none: "\<forall>v. fst (run_sessions worlds url output_dir quality_list duration cookies) = Inr v
          \<longrightarrow> v = VNone"
    by (simp add: run_sessions_value)
  have each: "fst (download_live_stream (worlds i) url output_dir (quality_list ! i) duration cookies)
                = Inr VNone"
    if "\<exists>v. fst (download_live_stream (worlds i) url output_dir (quality_list ! i) duration cookies)
            = Inr v" for i
    using that download_live_stream_value by blast
  from count none each run_sessions_joined [of quality_list worlds url output_dir duration cookies]
  show ?thesis by blast
qed

theorem one_session_per_label_witness:
  "length main_quality_list = 5
   \<and> fst (download_live_stream offline_world main_url (ascii ''downloads'') (main_quality_list ! 0)
             (Some 600) None) = Inr VNone
   \<and> fst (download_live_stream offline_world main_url (ascii ''downloads'') (main_quality_list ! 1)
             (Some 600) None) = Inr VNone
   \<and> fst (download_live_stream offline_world main_url (ascii ''downloads'') (main_quality_list ! 2)
             (Some 600) None) = Inr VNone
   \<and> fst (download_live_stream offline_world main_url (ascii ''downloads'') (main_quality_list ! 3)
             (Some 600) None) = Inr VNone
   \<and> fst (download_live_stream offline_world main_url (ascii ''downloads'') (main_quality_list ! 4)
             (Some 600) None) = Inr VNone
   \<and> length (snd (snd (main (\<lambda>i. offline_world)))) = 5
   \<and> fst (main (\<lambda>i. offline_world)) = Inr VNone
   \<and> snd (snd (main (\<lambda>i. offline_world))) ! 2 =
       [MkDir (ascii ''downloads''), NewClient None, Print (LogFetching (ascii ''HD'') main_url),
        FetchWeb main_url, Print (LogNotLive (ascii ''HD'') (VInt 4))]"
proof -
  have returns: "\<forall>i<length main_quality_list. \<exists>v.
      fst (download_live_stream offline_world main_url (ascii ''downloads'') (main_quality_list ! i)
             (Some 600) None) = Inr v"
    by (simp add: offline_session)
  have five: "length main_quality_list = 5"
    by (simp add: main_quality_list_def)
  note inst = one_session_per_label [of "\<lambda>i. offline_world" main_url "ascii ''downloads''"
      main_quality_list "Some 600" None]
  from inst five have count: "length (snd (snd (main (\<lambda>i. offline_world)))) = 5"
    by (simp add: main_def)
  from inst returns
  have whole: "main (\<lambda>i. offline_world) =
          (Inr VNone,
           [Print (LogRunStart (length main_quality_list) (py_join (ascii '', '') main_quality_list)),
            Print LogRunDone],
           map (\<lambda>i. snd (download_live_stream offline_world main_url (ascii ''downloads'')
                            (main_quality_list ! i) (Some 600) None))
             [0..<length main_quality_list])"
    unfolding main_def by blast
  then have result: "fst (main (\<lambda>i. offline_world)) = Inr VNone"
    by simp
  from whole five
  have third: "snd (snd (main (\<lambda>i. offline_world))) ! 2 =
       [MkDir (ascii ''downloads''), NewClient None, Print (LogFetching (ascii ''HD'') main_url),
        FetchWeb main_url, Print (LogNotLive (ascii ''HD'') (VInt 4))]"
    by (simp add: offline_session main_quality_list_def)
  from five count result third show ?thesis
    by (simp add: offline_session)
qed

section \<open>Endpoint selection\<close>

text \<open>
  C6: an address is present when it is neither \<^verbatim>\<open>None\<close> nor empty. The FLV address
  is selected whenever it is present; otherwise the m3u8 address is what is
  selected, so an m3u8 address is only ever used when the FLV address is absent.
  The selected address is the input of the capture process. When neither address
  is present the session prints that no address was obtained and returns \<^verbatim>\<open>None\<close>
  without starting a capture process.
\<close>

theorem endpoint_selection:
  "(truthy_str (flv_url sd) \<longrightarrow> select_stream_url sd = flv_url sd)
   \<and> (\<not> truthy_str (flv_url sd) \<longrightarrow> select_stream_url sd = m3u8_url sd)
   \<and> (mkdir w output_dir = None \<and> new_client w cookies = None
        \<and> fetch_room_data w url quality = (Inr data, t) \<and> room_status data = VInt 2
        \<and> fetch_stream_url w data quality = Inr sd \<longrightarrow>
        (\<not> truthy_str (flv_url sd) \<and> \<not> truthy_str (m3u8_url sd) \<longrightarrow>
           download_live_stream w url output_dir quality duration cookies =
             (Inr VNone,
              [MkDir output_dir, NewClient cookies, Print (LogFetching quality url)] @ t @
                [Print (LogAnchor quality (data (ascii ''anchor_name''))),
                 Print (LogTitle quality (data (ascii ''title''))),
                 FetchStreamUrl quality, Print (LogNoStreamUrl quality)])
           \<and> filter is_spawn
                (snd (download_live_stream w url output_dir quality duration cookies)) = [])
        \<and> (\<forall>stream_url name.
              select_stream_url sd = Some stream_url \<and> stream_url \<noteq> []
              \<and> anchor_name_for_file data = (Inr name, []) \<longrightarrow>
              filter is_spawn
                (snd (download_live_stream w url output_dir quality duration cookies)) =
                [Spawn (ffmpeg_cmd stream_url
                          (output_path w output_dir name quality (file_ext stream_url)) duration)]
              \<and> ffmpeg_cmd stream_url
                   (output_path w output_dir name quality (file_ext stream_url)) duration ! 2
                 = stream_url))"
proof -
  have prim: "truthy_str (flv_url sd) \<longrightarrow> select_stream_url sd = flv_url sd"
    by (simp add: select_stream_url_def py_or_def)
  have secondary: "\<not> truthy_str (flv_url sd) \<longrightarrow> select_stream_url sd = m3u8_url sd"
    by (simp add: select_stream_url_def py_or_def)
  have missing: "download_live_stream w url output_dir quality duration cookies =
             (Inr VNone,
              [MkDir output_dir, NewClient cookies, Print (LogFetching quality url)] @ t @
                [Print (LogAnchor quality (data (ascii ''anchor_name''))),
                 Print (LogTitle quality (data (ascii ''title''))),
                 FetchStreamUrl quality, Print (LogNoStreamUrl quality)])
           \<and> filter is_spawn
                (snd (download_live_stream w url output_dir quality duration cookies)) = []"
    if made: "mkdir w output_dir = None" "new_client w cookies = None"
      and live: "fetch_room_data w url quality = (Inr data, t)" "room_status data = VInt 2"
        "fetch_stream_url w data quality = Inr sd"
      and absent: "\<not> truthy_str (flv_url sd)" "\<not> truthy_str (m3u8_url sd)"
  proof -
    from absent have "\<not> truthy_str (select_stream_url sd)"
      by (simp add: select_stream_url_def py_or_def)
    note whole = download_live_stream_no_url [OF made live this]
    from fetch_room_data_no_capture [of w url quality] live(1)
    have "filter is_spawn t = []" by simp
    with whole show ?thesis by simp
  qed
  have source: "ffmpeg_cmd stream_url output_file duration ! 2 = stream_url"
    for stream_url output_file
    by (simp add: ffmpeg_cmd_def Let_def split: option.splits)
  have chosen: "filter is_spawn
                (snd (download_live_stream w url output_dir quality duration cookies)) =
                [Spawn (ffmpeg_cmd stream_url
                          (output_path w output_dir name quality (file_ext stream_url)) duration)]"
    if "mkdir w output_dir = None" "new_client w cookies = None"
      "fetch_room_data w url quality = (Inr data, t)" "room_status data = VInt 2"
      "fetch_stream_url w data quality = Inr sd"
      "select_stream_url sd = Some stream_url" "stream_url \<noteq> []"
      "anchor_name_for_file data = (Inr name, [])"
    for stream_url name
    using that by (rule download_live_stream_spawns)
  from prim secondary missing source chosen show ?thesis
    by blast
qed

theorem endpoint_selection_witness:
  "truthy_str (flv_url flv_stream) \<and> select_stream_url flv_stream = Some (ascii ''http://h/s.flv'')
   \<and> \<not> truthy_str (flv_url hls_stream)
   \<and> select_stream_url hls_stream = Some (ascii ''http://h/s.m3u8'')
   \<and> \<not> truthy_str (flv_url no_stream) \<and> \<not> truthy_str (m3u8_url no_stream)
   \<and> download_live_stream no_stream_world main_url (ascii ''d'') (ascii ''HD'') None None =
       (Inr VNone,
        [MkDir (ascii ''d''), NewClient None, Print (LogFetching (ascii ''HD'') main_url),
         FetchWeb main_url, Print (LogWebFailed (ascii ''HD'') (ascii ''timed out'')),
         FetchApp main_url,
         Print (LogAnchor (ascii ''HD'') (Some (VStr (ascii ''abc'')))),
         Print (LogTitle (ascii ''HD'') None),
         FetchStreamUrl (ascii ''HD''), Print (LogNoStreamUrl (ascii ''HD''))])
   \<and> filter is_spawn
        (snd (download_live_stream failing_world main_url (ascii ''d'') (ascii ''HD'') None None)) =
       [Spawn (ffmpeg_cmd (ascii ''http://h/s.flv'')
                 (output_path failing_world (ascii ''d'') (ascii ''abc'') (ascii ''HD'')
                    (file_ext (ascii ''http://h/s.flv''))) None)]"
proof -
  have flv: "truthy_str (flv_url flv_stream)"
    and hls: "\<not> truthy_str (flv_url hls_stream)" "m3u8_url hls_stream = Some (ascii ''http://h/s.m3u8'')"
    and absent: "\<not> truthy_str (flv_url no_stream)" "\<not> truthy_str (m3u8_url no_stream)"
    by (simp_all add: truthy_str_def flv_stream_def hls_stream_def no_stream_def ascii_def)
  have flv_value: "flv_url flv_stream = Some (ascii ''http://h/s.flv'')"
    by (simp add: flv_stream_def)
  have made: "mkdir no_stream_world (ascii ''d'') = None" "new_client no_stream_world None = None"
    "mkdir failing_world (ascii ''d'') = None" "new_client failing_world None = None"
    by (simp_all add: no_stream_world_def failing_world_def example_setup)
  have resolved1: "fetch_room_data no_stream_world main_url (ascii ''HD'') =
      (Inr live_room,
       [FetchWeb main_url, Print (LogWebFailed (ascii ''HD'') (ascii ''timed out'')),
        FetchApp main_url])"
    by (simp add: no_stream_world_def example_answers timeout_error_def fetch_room_data_app)
  have resolved2: "fetch_room_data failing_world main_url (ascii ''HD'') =
      (Inr live_room, [FetchWeb main_url])"
    by (simp add: failing_world_def example_answers fetch_room_data_web)
  have streams: "fetch_stream_url no_stream_world live_room (ascii ''HD'') = Inr no_stream"
    "fetch_stream_url failing_world live_room (ascii ''HD'') = Inr flv_stream"
    by (simp_all add: no_stream_world_def failing_world_def example_answers)
  have room: "live_room (ascii ''anchor_name'') = Some (VStr (ascii ''abc''))"
    "live_room (ascii ''title'') = None"
    by (simp_all add: live_room_def ascii_def)
  note sel1 = endpoint_selection [of flv_stream failing_world "ascii ''d''" None main_url
      "ascii ''HD''" live_room "[FetchWeb main_url]" None]
  note sel2 = endpoint_selection [of hls_stream failing_world "ascii ''d''" None main_url
      "ascii ''HD''" live_room "[FetchWeb main_url]" None]
  note sel3 = endpoint_selection [of no_stream no_stream_world "ascii ''d''" None main_url
      "ascii ''HD''" live_room
      "[FetchWeb main_url, Print (LogWebFailed (ascii ''HD'') (ascii ''timed out'')), FetchApp main_url]"
      None]
  from sel1 flv flv_value have c1: "select_stream_url flv_stream = Some (ascii ''http://h/s.flv'')"
    by simp
  from sel2 hls have c2: "select_stream_url hls_stream = Some (ascii ''http://h/s.m3u8'')"
    by simp
  from sel3 made(1,2) resolved1 streams(1) absent example_rooms(1)
  have c3: "download_live_stream no_stream_world main_url (ascii ''d'') (ascii ''HD'') None None =
       (Inr VNone,
        [MkDir (ascii ''d''), NewClient None, Print (LogFetching (ascii ''HD'') main_url)] @
        [FetchWeb main_url, Print (LogWebFailed (ascii ''HD'') (ascii ''timed out'')),
         FetchApp main_url] @
        [Print (LogAnchor (ascii ''HD'') (live_room (ascii ''anchor_name''))),
         Print (LogTitle (ascii ''HD'') (live_room (ascii ''title''))),
         FetchStreamUrl (ascii ''HD''), Print (LogNoStreamUrl (ascii ''HD''))])"
    by blast
  have nonempty: "ascii ''http://h/s.flv'' \<noteq> []"
    by (simp add: ascii_def)
  from sel1 made(3,4) resolved2 streams(2) example_rooms(1) c1 nonempty example_rooms(4)
  have c4: "filter is_spawn
        (snd (download_live_stream failing_world main_url (ascii ''d'') (ascii ''HD'') None None)) =
       [Spawn (ffmpeg_cmd (ascii ''http://h/s.flv'')
                 (output_path failing_world (ascii ''d'') (ascii ''abc'') (ascii ''HD'')
                    (file_ext (ascii ''http://h/s.flv''))) None)]"
    by blast
  from flv c1 hls(1) c2 absent c3 c4 room show ?thesis
    by simp
qed

section \<open>The command line of the capture process\<close>

text \<open>
  C7, as the specification states it: the audio bitstream filter flag is part of
  the command line only when the container format requires it, that is when a
  segmented-playlist source is written into an MP4 container, and is left out
  otherwise. The source does not do that: for an FLV address written to an
  \<^verbatim>\<open>.flv\<close> file the command line still carries \<^verbatim>\<open>-bsf:a aac_adtstoasc\<close>.
\<close>

theorem audio_filter_conditional_counterexample:
  "file_ext (ascii ''http://h/s.flv'') = ascii ''flv''
   \<and> \<not> endswith (ascii ''downloads/abc_OD_20240101_120000.flv'') (ascii ''.mp4'')
   \<and> ffmpeg_cmd (ascii ''http://h/s.flv'') (ascii ''downloads/abc_OD_20240101_120000.flv'')
         (Some 600) ! 5 = ascii ''-bsf:a''
   \<and> ffmpeg_cmd (ascii ''http://h/s.flv'') (ascii ''downloads/abc_OD_20240101_120000.flv'')
         (Some 600) ! 6 = ascii ''aac_adtstoasc''"
  by (simp add: ffmpeg_cmd_def file_ext_def endswith_def ascii_def)

text \<open>
  C7, amended: every command line built by \<^verbatim>\<open>download_with_ffmpeg\<close> starts with the
  same seven entries, whatever the address, the output file and the duration; the
  sixth and seventh are the audio bitstream filter flag and its value.
\<close>

theorem audio_filter_unconditional:
  "take 7 (ffmpeg_cmd stream_url output_file duration) =
     [ascii ''ffmpeg'', ascii ''-i'', stream_url, ascii ''-c'', ascii ''copy'',
      ascii ''-bsf:a'', ascii ''aac_adtstoasc'']"
  by (simp add: ffmpeg_cmd_def Let_def split: option.splits)

text \<open>
  C9, as the specification states it: the duration flag is passed exactly when a
  positive duration is supplied. With a duration of \<open>-5\<close> seconds, which is not
  positive, the source passes \<^verbatim>\<open>-t -5\<close>.
\<close>

theorem duration_flag_positive_counterexample:
  "\<not> (0::int) < - 5
   \<and> duration_args (ffmpeg_cmd (ascii ''http://h/s.flv'')
         (ascii ''downloads/abc_OD_20240101_120000.flv'') (Some (- 5)))
       = [ascii ''-t'', ascii ''-5'']"
  by (simp add: duration_args_def ffmpeg_cmd_def str_int_def digits.simps ascii_def)

text \<open>
  C9, amended: the duration flag \<^verbatim>\<open>-t N\<close> is passed exactly when a duration is
  supplied and is not zero (\<^verbatim>\<open>if duration:\<close>), whatever its sign. With no duration
  or with zero the command line has its eleven fixed entries only, a duration of
  zero makes the whole session behave as an omitted one does, and the capture
  returns \<^verbatim>\<open>None\<close> as soon as the process can be run.
\<close>

theorem duration_flag_iff_nonzero:
  "duration_args (ffmpeg_cmd stream_url output_file duration) =
     (if truthy_int duration
      then [ascii ''-t'', str_int (case duration of Some d \<Rightarrow> d)] else [])
   \<and> (\<not> truthy_int duration \<longrightarrow>
        ffmpeg_cmd stream_url output_file duration =
          [ascii ''ffmpeg'', ascii ''-i'', stream_url, ascii ''-c'', ascii ''copy'',
           ascii ''-bsf:a'', ascii ''aac_adtstoasc'',
           ascii ''-f'',
           if endswith output_file (ascii ''.mp4'') then ascii ''mp4'' else ascii ''flv'',
           ascii ''-y'', output_file]
        \<and> download_live_stream w url output_dir quality duration cookies =
            download_live_stream w url output_dir quality None cookies
        \<and> (\<forall>process.
              subprocess_exec w (ffmpeg_cmd stream_url output_file duration) = Inr process \<longrightarrow>
              fst (download_with_ffmpeg w stream_url output_file duration quality) = Inr VNone))"
proof -
  have flag: "duration_args (ffmpeg_cmd stream_url output_file duration) =
     (if truthy_int duration
      then [ascii ''-t'', str_int (case duration of Some d \<Rightarrow> d)] else [])"
    by (simp add: duration_args_def ffmpeg_cmd_def truthy_int_def split: option.splits)
  have same: "download_live_stream w url output_dir quality (Some 0) cookies =
      download_live_stream w url output_dir quality None cookies"
    by (rule download_live_stream_zero)
  have falsy: "\<not> truthy_int duration \<longleftrightarrow> duration = None \<or> duration = Some 0"
    by (simp add: truthy_int_def split: option.splits)
  have cmd: "\<not> truthy_int duration \<Longrightarrow>
      ffmpeg_cmd stream_url output_file duration =
          [ascii ''ffmpeg'', ascii ''-i'', stream_url, ascii ''-c'', ascii ''copy'',
           ascii ''-bsf:a'', ascii ''aac_adtstoasc'',
           ascii ''-f'',
           if endswith output_file (ascii ''.mp4'') then ascii ''mp4'' else ascii ''flv'',
           ascii ''-y'', output_file]"
    by (auto simp: falsy ffmpeg_cmd_def)
  have ret: "subprocess_exec w (ffmpeg_cmd stream_url output_file duration) = Inr process \<Longrightarrow>
      fst (download_with_ffmpeg w stream_url output_file duration quality) = Inr VNone"
    for process
    by (simp add: download_with_ffmpeg_exit)
  from flag same falsy cmd ret show ?thesis by auto
qed

theorem duration_flag_iff_nonzero_witness:
  "\<not> truthy_int (Some 0)
   \<and> duration_args (ffmpeg_cmd (ascii ''http://h/s.flv'') (ascii ''d/abc_OD_t.flv'') (Some 0)) = []
   \<and> subprocess_exec failing_world
        (ffmpeg_cmd (ascii ''http://h/s.flv'') (ascii ''d/abc_OD_t.flv'') (Some 0))
       = Inr (exited 1 (98 # replicate 200 97))
   \<and> fst (download_with_ffmpeg failing_world (ascii ''http://h/s.flv'') (ascii ''d/abc_OD_t.flv'')
            (Some 0) (ascii ''OD'')) = Inr VNone
   \<and> download_live_stream failing_world main_url (ascii ''d'') (ascii ''OD'') (Some 0) None =
       download_live_stream failing_world main_url (ascii ''d'') (ascii ''OD'') None None"
proof -
  have falsy: "\<not> truthy_int (Some 0)"
    by (simp add: truthy_int_def)
  have run: "subprocess_exec failing_world
        (ffmpeg_cmd (ascii ''http://h/s.flv'') (ascii ''d/abc_OD_t.flv'') (Some 0))
       = Inr (exited 1 (98 # replicate 200 97))"
    by (simp add: failing_world_def example_world_def)
  note inst = duration_flag_iff_nonzero [of "ascii ''http://h/s.flv''" "ascii ''d/abc_OD_t.flv''"
      "Some 0" failing_world main_url "ascii ''d''" "ascii ''OD''" None]
  from inst [THEN conjunct1] falsy
  have args: "duration_args
      (ffmpeg_cmd (ascii ''http://h/s.flv'') (ascii ''d/abc_OD_t.flv'') (Some 0)) = []"
    by (simp only: if_False)
  from inst falsy run
  have ret: "fst (download_with_ffmpeg failing_world (ascii ''http://h/s.flv'')
      (ascii ''d/abc_OD_t.flv'') (Some 0) (ascii ''OD'')) = Inr VNone"
    by blast
  from inst falsy
  have same: "download_live_stream failing_world main_url (ascii ''d'') (ascii ''OD'') (Some 0) None =
       download_live_stream failing_world main_url (ascii ''d'') (ascii ''OD'') None None"
    by blast
  from falsy args run ret same show ?thesis by blast
qed

section \<open>Failure diagnostics\<close>

text \<open>
  C8, as the specification states it: when the capture process ends with a non-zero
  return code, the recorded error detail is the last 200 characters of its
  diagnostic stream. For a process that fails after writing \<^verbatim>\<open>b\<close> followed by 200
  times \<^verbatim>\<open>a\<close>, the last 200 characters are the 200 \<^verbatim>\<open>a\<close>, and no such detail is
  printed.
\<close>

theorem error_detail_last_200_counterexample:
  "returncode (exited 1 (98 # replicate 200 97)) \<noteq> 0
   \<and> subprocess_exec failing_world
        (ffmpeg_cmd (ascii ''http://h/s.flv'') (ascii ''d/abc_OD_t.flv'') None)
       = Inr (exited 1 (98 # replicate 200 97))
   \<and> Print (LogFfmpegError (ascii ''OD'')
        (last_chars 200
           (decode_utf8_ignore failing_world (stderr (exited 1 (98 # replicate 200 97))))))
     \<notin> set (snd (download_with_ffmpeg failing_world (ascii ''http://h/s.flv'')
                   (ascii ''d/abc_OD_t.flv'') None (ascii ''OD'')))"
  by (simp add: download_with_ffmpeg_def io_defs failing_world_def example_world_def
      exited_def last_chars_def replicate_neq_cons)

text \<open>
  C8, amended: when the capture process ends with a non-zero return code, the
  function prints one error line whose detail is the first 200 characters of the
  decoded diagnostic stream (\<^verbatim>\<open>[:200]\<close>), and returns \<^verbatim>\<open>None\<close>.
\<close>

theorem error_detail_first_200:
  assumes "subprocess_exec w (ffmpeg_cmd stream_url output_file duration) = Inr process"
    and "returncode process \<noteq> 0"
  shows "download_with_ffmpeg w stream_url output_file duration quality =
           (Inr VNone,
            [Spawn (ffmpeg_cmd stream_url output_file duration),
             Print (LogFfmpegError quality
                      (take 200 (decode_utf8_ignore w (stderr process))))])"
  using assms by (simp add: download_with_ffmpeg_exit)

theorem error_detail_first_200_witness:
  "subprocess_exec failing_world
        (ffmpeg_cmd (ascii ''http://h/s.flv'') (ascii ''d/abc_OD_t.flv'') None)
       = Inr (exited 1 (98 # replicate 200 97))
   \<and> returncode (exited 1 (98 # replicate 200 97)) \<noteq> 0
   \<and> download_with_ffmpeg failing_world (ascii ''http://h/s.flv'') (ascii ''d/abc_OD_t.flv'')
        None (ascii ''OD'') =
      (Inr VNone,
       [Spawn (ffmpeg_cmd (ascii ''http://h/s.flv'') (ascii ''d/abc_OD_t.flv'') None),
        Print (LogFfmpegError (ascii ''OD'') (98 # replicate 199 97))])"
proof -
  have run: "subprocess_exec failing_world
        (ffmpeg_cmd (ascii ''http://h/s.flv'') (ascii ''d/abc_OD_t.flv'') None)
       = Inr (exited 1 (98 # replicate 200 97))"
    by (simp add: failing_world_def example_world_def)
  have code: "returncode (exited 1 (98 # replicate 200 97)) \<noteq> 0"
    by (simp add: exited_def)
  have detail: "take 200 (decode_utf8_ignore failing_world
                 (stderr (exited 1 (98 # replicate 200 97)))) = 98 # replicate 199 97"
    by (simp add: failing_world_def example_world_def exited_def)
  from error_detail_first_200 [OF run code, of "ascii ''OD''"] run code detail
  show ?thesis by simp
qed

end
